theory Spec2Isabelle
  imports Main "HOL-Library.Word" "HOL-Library.Sublist"
begin

text \<open>
  The request pipeline of the file service: the configuration, the authenticator, the
  validators, the multipart layer with its disk storage, the upload and delete routes and
  the error responder. Calls of the logger change nothing a response or the volume shows
  and are left out, as is the download route, which takes no part in what follows.
\<close>

section \<open>JavaScript values\<close>

text \<open>
  A JavaScript string is a sequence of 16-bit code units; \<open>===\<close> on strings is equality
  of these sequences. \<open>undefined\<close> is \<open>None\<close> of an option type.
\<close>

type_synonym jschar = "16 word"
type_synonym jsstring = "jschar list"

definition js :: "string \<Rightarrow> jsstring" where
  "js s = map of_char s"

text \<open>A template literal \<^verbatim>\<open>`${x}`\<close> prints \<open>undefined\<close> as the word "undefined".\<close>

definition template :: "jsstring option \<Rightarrow> jsstring" where
  "template x = (case x of None \<Rightarrow> js ''undefined'' | Some s \<Rightarrow> s)"

text \<open>\<^verbatim>\<open>!x\<close> for a value that is a string or \<open>undefined\<close>: the empty string is falsy too.\<close>

definition falsy :: "jsstring option \<Rightarrow> bool" where
  "falsy x = (case x of None \<Rightarrow> True | Some s \<Rightarrow> s = [])"

text \<open>\<^verbatim>\<open>x || d\<close> for such a value.\<close>

definition or_default :: "jsstring option \<Rightarrow> jsstring \<Rightarrow> jsstring" where
  "or_default x d = (if falsy x then d else the x)"

text \<open>
  \<^verbatim>\<open>String.prototype.trim\<close> strips the code units of ECMAScript's WhiteSpace and
  LineTerminator productions from both ends.
\<close>

definition is_whitespace :: "jschar \<Rightarrow> bool" where
  "is_whitespace c \<longleftrightarrow>
     c \<in> set [0x0009, 0x000A, 0x000B, 0x000C, 0x000D, 0x0020, 0x00A0, 0x1680,
              0x2000, 0x2001, 0x2002, 0x2003, 0x2004, 0x2005, 0x2006, 0x2007,
              0x2008, 0x2009, 0x200A, 0x2028, 0x2029, 0x202F, 0x205F, 0x3000, 0xFEFF]"

definition trim :: "jsstring \<Rightarrow> jsstring" where
  "trim s = rev (dropWhile is_whitespace (rev (dropWhile is_whitespace s)))"

text \<open>
  A value of \<^verbatim>\<open>req.query\<close> as Express's query parser builds it: a string, an array
  (a repeated or bracketed parameter) or a nested object.
\<close>

datatype qvalue =
    QString jsstring
  | QArray "qvalue list"
  | QObject "(jsstring \<times> qvalue) list"

text \<open>\<^verbatim>\<open>!v\<close> on a query value that may be \<open>undefined\<close>: arrays and objects are truthy.\<close>

fun qfalsy :: "qvalue option \<Rightarrow> bool" where
  "qfalsy None = True"
| "qfalsy (Some (QString s)) = (s = [])"
| "qfalsy (Some (QArray vs)) = False"
| "qfalsy (Some (QObject kvs)) = False"

section \<open>Paths (Node's posix \<^verbatim>\<open>path\<close> module)\<close>

definition SLASH :: jschar where "SLASH = 0x2F"
definition DOT :: jschar where "DOT = 0x2E"

fun split_on :: "'a \<Rightarrow> 'a list \<Rightarrow> 'a list list" where
  "split_on c [] = [[]]"
| "split_on c (x # xs) =
     (if x = c then [] # split_on c xs
      else (case split_on c xs of [] \<Rightarrow> [[x]] | s # ss \<Rightarrow> (x # s) # ss))"

fun intercalate :: "'a \<Rightarrow> 'a list list \<Rightarrow> 'a list" where
  "intercalate c [] = []"
| "intercalate c [s] = s"
| "intercalate c (s # t # ss) = s @ c # intercalate c (t # ss)"

text \<open>
  Library behaviour (\<^verbatim>\<open>normalizeString\<close> of Node's \<^verbatim>\<open>path\<close>): the path is read
  segment by segment; an empty segment and \<open>.\<close> are dropped, \<open>..\<close> removes the segment
  before it when there is one that is not itself \<open>..\<close>, and is kept otherwise only when
  the path is relative. The stack holds the kept segments, last one first.
\<close>

definition normalize_step :: "bool \<Rightarrow> jsstring list \<Rightarrow> jsstring \<Rightarrow> jsstring list" where
  "normalize_step allowAboveRoot stack seg =
     (if seg = [] \<or> seg = [DOT] then stack
      else if seg = [DOT, DOT] then
        (case stack of
           [] \<Rightarrow> if allowAboveRoot then [[DOT, DOT]] else []
         | t # rest \<Rightarrow>
             if t \<noteq> [DOT, DOT] then rest
             else if allowAboveRoot then [DOT, DOT] # stack else stack)
      else seg # stack)"

definition normalizeString :: "jsstring \<Rightarrow> bool \<Rightarrow> jsstring" where
  "normalizeString path allowAboveRoot =
     intercalate SLASH (rev (foldl (normalize_step allowAboveRoot) [] (split_on SLASH path)))"

text \<open>\<^verbatim>\<open>path.normalize\<close> and \<^verbatim>\<open>path.join\<close>.\<close>

definition path_normalize :: "jsstring \<Rightarrow> jsstring" where
  "path_normalize path =
     (if path = [] then [DOT]
      else
        let isAbsolute = (hd path = SLASH);
            trailingSeparator = (last path = SLASH);
            p = normalizeString path (\<not> isAbsolute)
        in if p = [] then
             (if isAbsolute then [SLASH]
              else if trailingSeparator then [DOT, SLASH] else [DOT])
           else
             (if isAbsolute then [SLASH] else []) @ p
               @ (if trailingSeparator then [SLASH] else []))"

definition path_join :: "jsstring list \<Rightarrow> jsstring" where
  "path_join args =
     (let joined = filter (\<lambda>a. a \<noteq> []) args
      in if joined = [] then [DOT] else path_normalize (intercalate SLASH joined))"

text \<open>
  The shape of the stack while \<^verbatim>\<open>normalizeString\<close> runs: every kept segment is
  non-empty, is not \<open>.\<close> and holds no separator, and \<open>..\<close> is kept only in a relative
  path, below every other segment.
\<close>

fun normal_stack :: "bool \<Rightarrow> jsstring list \<Rightarrow> bool" where
  "normal_stack a [] = True"
| "normal_stack a (s # stack) =
     (s \<noteq> [] \<and> s \<noteq> [DOT] \<and> SLASH \<notin> set s \<and>
      (if s = [DOT, DOT] then a \<and> (\<forall>t \<in> set stack. t = [DOT, DOT]) else normal_stack a stack))"

text \<open>
  \<^verbatim>\<open>path.extname\<close>: Node scans the path from its end. The state is that of the
  library's loop; \<open>-1\<close> marks "not seen yet", so the indices are integers.
\<close>

record ext_state =
  startDot :: int
  startPart :: int
  end_ix :: int
  matchedSlash :: bool
  preDotState :: int

definition ext_init :: ext_state where
  "ext_init = \<lparr>startDot = -1, startPart = 0, end_ix = -1, matchedSlash = True, preDotState = 0\<rparr>"

text \<open>\<open>extname_loop path n st\<close> runs the loop for \<open>i = n - 1\<close> down to \<open>0\<close>.\<close>

fun extname_loop :: "jsstring \<Rightarrow> nat \<Rightarrow> ext_state \<Rightarrow> ext_state" where
  "extname_loop path 0 st = st"
| "extname_loop path (Suc i) st =
     (let code = path ! i in
      if code = SLASH then
        (if \<not> matchedSlash st then st\<lparr>startPart := int i + 1\<rparr>
         else extname_loop path i st)
      else
        let st1 = (if end_ix st = -1 then st\<lparr>matchedSlash := False, end_ix := int i + 1\<rparr> else st);
            st2 = (if code = DOT then
                     (if startDot st1 = -1 then st1\<lparr>startDot := int i\<rparr>
                      else if preDotState st1 \<noteq> 1 then st1\<lparr>preDotState := 1\<rparr> else st1)
                   else if startDot st1 \<noteq> -1 then st1\<lparr>preDotState := -1\<rparr>
                   else st1)
        in extname_loop path i st2)"

definition extname :: "jsstring \<Rightarrow> jsstring" where
  "extname path =
     (let st = extname_loop path (length path) ext_init in
      if startDot st = -1 \<or> end_ix st = -1 \<or> preDotState st = 0 \<or>
         (preDotState st = 1 \<and> startDot st = end_ix st - 1 \<and> startDot st = startPart st + 1)
      then []
      else take (nat (end_ix st - startDot st)) (drop (nat (startDot st)) path))"

section \<open>Configuration (\<^verbatim>\<open>config/environment.js\<close>)\<close>

record environment =
  port :: "jsstring + nat"
  baseUrl :: jsstring
  volumePath :: jsstring
  authToken :: "jsstring option"
  logLevel :: jsstring

text \<open>
  \<open>env\<close> is \<^verbatim>\<open>process.env\<close>, \<open>dirname\<close> the directory of the configuration module.
  Only \<^verbatim>\<open>AUTH_TOKEN\<close> has no default. The repository holds a second copy of this
  module that differs in the default of the volume path alone (\<^verbatim>\<open>../uploads\<close>).
\<close>

definition load_environment :: "(string \<rightharpoonup> jsstring) \<Rightarrow> jsstring \<Rightarrow> environment" where
  "load_environment env dirname =
     \<lparr>port = (if falsy (env ''PORT'') then Inr 3000 else Inl (the (env ''PORT''))),
      baseUrl = or_default (env ''BASE_URL'') (js ''http://localhost:3000''),
      volumePath = or_default (env ''VOLUME_PATH'') (path_join [dirname, js ''../../../uploads'']),
      authToken = env ''AUTH_TOKEN'',
      logLevel = or_default (env ''LOG_LEVEL'') (js ''info'')\<rparr>"

section \<open>Responses and middleware results\<close>

datatype body =
    ErrorBody jsstring jsstring
  | UploadBody jsstring jsstring jsstring nat jsstring
  | DeleteBody jsstring jsstring nat

text \<open>
  \<open>ErrorBody error message\<close>, \<open>UploadBody filePath filename originalname size mimetype\<close>
  and \<open>DeleteBody message filename size\<close> are the three JSON bodies the service sends.
\<close>

record response =
  status :: nat
  body :: body

text \<open>A middleware either calls \<^verbatim>\<open>next()\<close> or sends a response itself.\<close>

datatype 'a step = Next 'a | Respond response

text \<open>
  An error object as \<^verbatim>\<open>errorHandler\<close> inspects it: whether it is a
  \<^verbatim>\<open>MulterError\<close>, its \<^verbatim>\<open>name\<close>, its \<^verbatim>\<open>code\<close> (absent on a plain
  \<^verbatim>\<open>Error\<close>) and its message.
\<close>

record js_error =
  is_multer :: bool
  err_name :: jsstring
  err_code :: "jsstring option"
  err_message :: jsstring

definition plain_Error :: "jsstring \<Rightarrow> js_error" where
  "plain_Error msg = \<lparr>is_multer = False, err_name = js ''Error'', err_code = None, err_message = msg\<rparr>"

definition system_Error :: "jsstring \<Rightarrow> js_error" where
  "system_Error code = \<lparr>is_multer = False, err_name = js ''Error'', err_code = Some code, err_message = code\<rparr>"

definition MulterError :: "jsstring \<Rightarrow> jsstring \<Rightarrow> js_error" where
  "MulterError code msg = \<lparr>is_multer = True, err_name = js ''MulterError'', err_code = Some code, err_message = msg\<rparr>"

section \<open>The authenticator (\<^verbatim>\<open>routes/files.js\<close>)\<close>

text \<open>
  \<open>token\<close> is \<^verbatim>\<open>req.headers['authorization']\<close>. Nothing in the body of the
  \<^verbatim>\<open>try\<close> raises, so the \<^verbatim>\<open>catch\<close> branch (500) has no counterpart here.
\<close>

definition authenticate :: "environment \<Rightarrow> jsstring option \<Rightarrow> unit step" where
  "authenticate environment token =
     (if falsy token then
        Respond \<lparr>status = 401,
                 body = ErrorBody (js ''Missing authorization'') (js ''Authorization header is required'')\<rparr>
      else if the token \<noteq> js ''Bearer '' @ template (authToken environment) then
        Respond \<lparr>status = 401,
                 body = ErrorBody (js ''Invalid token'') (js ''Invalid authorization token'')\<rparr>
      else Next ())"

section \<open>Validators (\<^verbatim>\<open>middleware/validation.js\<close>)\<close>

definition validateFilename :: "qvalue option \<Rightarrow> jsstring step" where
  "validateFilename fname =
     (if qfalsy fname then
        Respond \<lparr>status = 400,
                 body = ErrorBody (js ''Missing required parameter'') (js ''filename is required'')\<rparr>
      else
        (case fname of
           Some (QString s) \<Rightarrow>
             if length (trim s) = 0 then
               Respond \<lparr>status = 400,
                        body = ErrorBody (js ''Invalid parameter'') (js ''filename must be a non-empty string'')\<rparr>
             else Next (trim s)
         | _ \<Rightarrow>
             Respond \<lparr>status = 400,
                      body = ErrorBody (js ''Invalid parameter'') (js ''filename must be a non-empty string'')\<rparr>))"

definition allowedMimeTypes :: "jsstring list" where
  "allowedMimeTypes =
     [js ''image/jpeg'', js ''image/png'', js ''image/gif'', js ''image/webp'',
      js ''application/pdf'', js ''text/plain'', js ''application/json'', js ''text/csv'',
      js ''application/vnd.ms-excel'',
      js ''application/vnd.openxmlformats-officedocument.spreadsheetml.sheet'']"

text \<open>The \<^verbatim>\<open>file\<close> object multer builds for a part, and what disk storage adds to it.\<close>

record file_info =
  fieldname :: jsstring
  originalname :: jsstring
  mimetype :: jsstring

record multer_file = file_info +
  destination :: jsstring
  filename :: jsstring
  path :: jsstring
  fsize :: nat

definition validateFileUpload :: "multer_file option \<Rightarrow> multer_file step" where
  "validateFileUpload file =
     (case file of
        None \<Rightarrow>
          Respond \<lparr>status = 400,
                   body = ErrorBody (js ''No file uploaded'') (js ''Please select a file to upload'')\<rparr>
      | Some f \<Rightarrow>
          if mimetype f \<notin> set allowedMimeTypes then
            Respond \<lparr>status = 400,
                     body = ErrorBody (js ''Unsupported file type'')
                              (js ''The uploaded file type is not supported'')\<rparr>
          else Next f)"

section \<open>The error responder (\<^verbatim>\<open>middleware/errorHandler.js\<close>)\<close>

definition errorHandler :: "js_error \<Rightarrow> response" where
  \<open>errorHandler err =
     (if is_multer err then
        (if err_code err = Some (js ''LIMIT_FILE_SIZE'') then
           \<lparr>status = 413,
            body = ErrorBody (js ''File too large'')
                     (js ''The uploaded file exceeds the maximum allowed size'')\<rparr>
         else if err_code err = Some (js ''LIMIT_FILE_COUNT'') then
           \<lparr>status = 413,
            body = ErrorBody (js ''Too many files'') (js ''Only one file is allowed per request'')\<rparr>
         else if err_code err = Some (js ''LIMIT_UNEXPECTED_FILE'') then
           \<lparr>status = 400,
            body = ErrorBody (js ''Invalid field name'')
                     (js ''File must be uploaded with field name "file"'')\<rparr>
         else \<lparr>status = 400, body = ErrorBody (js ''Upload error'') (err_message err)\<rparr>)
      else if err_name err = js ''ValidationError'' then
        \<lparr>status = 400, body = ErrorBody (js ''Validation error'') (err_message err)\<rparr>
      else if err_code err = Some (js ''ENOENT'') then
        \<lparr>status = 404,
         body = ErrorBody (js ''File not found'') (js ''The requested file does not exist'')\<rparr>
      else if err_code err = Some (js ''EACCES'') then
        \<lparr>status = 403,
         body = ErrorBody (js ''Permission denied'') (js ''Access to the file is denied'')\<rparr>
      else
        \<lparr>status = 500,
         body = ErrorBody (js ''Internal server error'') (js ''An unexpected error occurred'')\<rparr>)\<close>

section \<open>The filesystem\<close>

text \<open>
  The volume as the handlers observe it: which paths exist and the size \<^verbatim>\<open>stat\<close>
  reports for each, and, for each path, the error code with which the operating system
  would refuse to create a directory there, to write it or to unlink it.
\<close>

record fs_state =
  entries :: "jsstring \<rightharpoonup> nat"
  dir_size :: nat
  mkdir_fault :: "jsstring \<rightharpoonup> jsstring"
  write_fault :: "jsstring \<rightharpoonup> jsstring"
  unlink_fault :: "jsstring \<rightharpoonup> jsstring"

definition existsSync :: "fs_state \<Rightarrow> jsstring \<Rightarrow> bool" where
  "existsSync fs p = (entries fs p \<noteq> None)"

definition statSync :: "fs_state \<Rightarrow> jsstring \<Rightarrow> jsstring + nat" where
  "statSync fs p = (case entries fs p of None \<Rightarrow> Inl (js ''ENOENT'') | Some n \<Rightarrow> Inr n)"

definition unlinkSync :: "fs_state \<Rightarrow> jsstring \<Rightarrow> jsstring + fs_state" where
  "unlinkSync fs p =
     (case unlink_fault fs p of
        Some code \<Rightarrow> Inl code
      | None \<Rightarrow>
          if entries fs p = None then Inl (js ''ENOENT'')
          else Inr (fs\<lparr>entries := (entries fs)(p := None)\<rparr>))"

text \<open>\<^verbatim>\<open>fs.mkdirSync(dir, { recursive: true })\<close>: an existing directory is not an error.\<close>

definition mkdirSync :: "fs_state \<Rightarrow> jsstring \<Rightarrow> jsstring + fs_state" where
  "mkdirSync fs dir =
     (case mkdir_fault fs dir of
        Some code \<Rightarrow> Inl code
      | None \<Rightarrow>
          Inr (if entries fs dir = None then fs\<lparr>entries := (entries fs)(dir \<mapsto> dir_size fs)\<rparr>
               else fs))"

definition writeFile :: "fs_state \<Rightarrow> jsstring \<Rightarrow> nat \<Rightarrow> jsstring + fs_state" where
  "writeFile fs p n =
     (case write_fault fs p of
        Some code \<Rightarrow> Inl code
      | None \<Rightarrow> Inr (fs\<lparr>entries := (entries fs)(p \<mapsto> n)\<rparr>))"

section \<open>The multipart layer (\<^verbatim>\<open>routes/files.js\<close> and multer)\<close>

text \<open>A file part of the multipart body: what multer reads of its headers, and its length.\<close>

record file_part = file_info +
  bytes :: nat

record limits =
  fileSize :: nat
  files :: nat

definition upload_limits :: limits where
  "upload_limits = \<lparr>fileSize = 10 * 1024 * 1024, files = 1\<rparr>"

text \<open>
  Library behaviour (busboy's size limit on a file part). busboy 1.x reports the limit as
  soon as the part's size reaches it, busboy 0.2.x only when the size exceeds it; the
  repository does not say which one it runs, so which of the two holds is a parameter,
  \<open>inclusive\<close>, of the multipart layer.
\<close>

definition size_limit_hit :: "bool \<Rightarrow> nat \<Rightarrow> nat \<Rightarrow> bool" where
  "size_limit_hit inclusive n limit = (if inclusive then limit \<le> n else limit < n)"

text \<open>
  The \<^verbatim>\<open>fileFilter\<close> option. Its allow-list is written out a second time in the
  source, with the same ten entries as the one of \<^verbatim>\<open>validateFileUpload\<close>.
\<close>

definition fileFilter :: "'a file_info_scheme \<Rightarrow> js_error option" where
  "fileFilter file =
     (if mimetype file \<notin> set allowedMimeTypes then Some (plain_Error (js ''Unsupported file type''))
      else None)"

text \<open>
  The two callbacks of \<^verbatim>\<open>multer.diskStorage\<close>. \<open>dirname\<close> is the directory of the
  routes module, \<open>uuid\<close> the value \<^verbatim>\<open>uuidv4()\<close> returns for this file.
\<close>

definition storage_destination ::
  "environment \<Rightarrow> jsstring \<Rightarrow> fs_state \<Rightarrow> (js_error + jsstring) \<times> fs_state" where
  "storage_destination environment dirname fs =
     (let dir = path_join [dirname, js ''..'', volumePath environment] in
      case mkdirSync fs dir of
        Inl code \<Rightarrow> (Inl (system_Error code), fs)
      | Inr fs' \<Rightarrow> (Inr dir, fs'))"

definition storage_filename :: "jsstring \<Rightarrow> 'a file_info_scheme \<Rightarrow> jsstring" where
  "storage_filename uuid file = uuid @ extname (originalname file)"

text \<open>
  Library behaviour (\<^verbatim>\<open>DiskStorage._handleFile\<close> of multer): ask for the destination,
  then for the name, and stream the part to the join of the two. busboy cuts the stream
  of a part at the size limit.
\<close>

definition handleFile ::
  "environment \<Rightarrow> jsstring \<Rightarrow> jsstring \<Rightarrow> file_part \<Rightarrow> fs_state \<Rightarrow> (js_error + multer_file) \<times> fs_state" where
  "handleFile environment dirname uuid part fs =
     (case storage_destination environment dirname fs of
        (Inl err, fs1) \<Rightarrow> (Inl err, fs1)
      | (Inr dir, fs1) \<Rightarrow>
          let fname = storage_filename uuid part;
              finalPath = path_join [dir, fname];
              written = min (bytes part) (fileSize upload_limits)
          in case writeFile fs1 finalPath written of
               Inl code \<Rightarrow> (Inl (system_Error code), fs1)
             | Inr fs2 \<Rightarrow>
                 (Inr \<lparr>fieldname = fieldname part, originalname = originalname part,
                       mimetype = mimetype part, destination = dir, filename = fname,
                       path = finalPath, fsize = written\<rparr>, fs2))"

text \<open>
  Library behaviour (multer's middleware over busboy), for the file parts in the order
  of the body. \<open>nfiles\<close> is busboy's count of file parts, \<open>filesLeft\<close> the number of files
  each accepted field may still take, \<open>req_file\<close> what \<^verbatim>\<open>req.file\<close> will be,
  \<open>uploadedFiles\<close> the files already handed to storage. Text fields of the body only
  fill \<^verbatim>\<open>req.body\<close>, which no stage reads, and are left out.
\<close>

record multer_state =
  nfiles :: nat
  filesLeft :: "jsstring \<rightharpoonup> nat"
  req_file :: "multer_file option"
  uploadedFiles :: "multer_file list"
  disk :: fs_state

text \<open>On the first error multer unlinks what it has stored and passes the error on.\<close>

definition removeUploadedFiles :: "multer_file list \<Rightarrow> fs_state \<Rightarrow> fs_state" where
  "removeUploadedFiles fls fs =
     foldl (\<lambda>d f. case unlinkSync d (path f) of Inl code \<Rightarrow> d | Inr d' \<Rightarrow> d') fs fls"

definition abortWithError ::
  "js_error \<Rightarrow> multer_state \<Rightarrow> (js_error + multer_file option) \<times> fs_state" where
  "abortWithError err st = (Inl err, removeUploadedFiles (uploadedFiles st) (disk st))"

text \<open>
  For each file part, in this order: busboy refuses it when the count limit is reached
  (\<^verbatim>\<open>LIMIT_FILE_COUNT\<close>); multer skips it when it has no file name; refuses it when its
  field may take no more files (\<^verbatim>\<open>LIMIT_UNEXPECTED_FILE\<close>); asks \<^verbatim>\<open>fileFilter\<close>;
  hands it to storage; and refuses it when busboy reported the size limit for it
  (\<^verbatim>\<open>LIMIT_FILE_SIZE\<close>). \<open>uuids k\<close> is the result of the \<open>k\<close>-th call of
  \<^verbatim>\<open>uuidv4()\<close> in this request.
\<close>

fun multer_parts ::
  "environment \<Rightarrow> jsstring \<Rightarrow> (nat \<Rightarrow> jsstring) \<Rightarrow> bool \<Rightarrow> file_part list \<Rightarrow> multer_state
     \<Rightarrow> (js_error + multer_file option) \<times> fs_state" where
  "multer_parts environment dirname uuids inclusive [] st = (Inr (req_file st), disk st)"
| "multer_parts environment dirname uuids inclusive (part # parts) st =
     (if nfiles st = files upload_limits then
        abortWithError (MulterError (js ''LIMIT_FILE_COUNT'') (js ''Too many files'')) st
      else
        let st1 = st\<lparr>nfiles := Suc (nfiles st)\<rparr> in
        if originalname part = [] then multer_parts environment dirname uuids inclusive parts st1
        else if (case filesLeft st1 (fieldname part) of None \<Rightarrow> 0 | Some n \<Rightarrow> n) \<le> 0 then
          abortWithError (MulterError (js ''LIMIT_UNEXPECTED_FILE'') (js ''Unexpected field'')) st1
        else
          let st2 = st1\<lparr>filesLeft := (filesLeft st1)(fieldname part \<mapsto>
                          the (filesLeft st1 (fieldname part)) - 1)\<rparr> in
          case fileFilter part of
            Some err \<Rightarrow> abortWithError err st2
          | None \<Rightarrow>
              (case handleFile environment dirname (uuids (length (uploadedFiles st2))) part (disk st2) of
                 (Inl err, fs1) \<Rightarrow> abortWithError err (st2\<lparr>disk := fs1\<rparr>)
               | (Inr file, fs1) \<Rightarrow>
                   if size_limit_hit inclusive (bytes part) (fileSize upload_limits) then
                     abortWithError (MulterError (js ''LIMIT_FILE_SIZE'') (js ''File too large''))
                       (st2\<lparr>uploadedFiles := uploadedFiles st2 @ [file], disk := fs1\<rparr>)
                   else
                     multer_parts environment dirname uuids inclusive parts
                       (st2\<lparr>req_file := Some file,
                            uploadedFiles := uploadedFiles st2 @ [file], disk := fs1\<rparr>)))"

section \<open>Requests and routes (\<^verbatim>\<open>routes/files.js\<close>, \<^verbatim>\<open>index.js\<close>)\<close>

record http_request =
  authorization :: "jsstring option"

record upload_request = http_request +
  multipart :: bool
  file_parts :: "file_part list"

record delete_request = http_request +
  query_filename :: "qvalue option"

text \<open>\<^verbatim>\<open>upload.single(name)\<close>: a body that is not multipart is passed on untouched.\<close>

definition upload_single ::
  "environment \<Rightarrow> jsstring \<Rightarrow> (nat \<Rightarrow> jsstring) \<Rightarrow> bool \<Rightarrow> jsstring \<Rightarrow> upload_request \<Rightarrow> fs_state
     \<Rightarrow> (js_error + multer_file option) \<times> fs_state" where
  "upload_single environment dirname uuids inclusive name req fs =
     (if \<not> multipart req then (Inr None, fs)
      else multer_parts environment dirname uuids inclusive (file_parts req)
             \<lparr>nfiles = 0, filesLeft = [name \<mapsto> 1], req_file = None, uploadedFiles = [], disk = fs\<rparr>)"

text \<open>What a request leaves behind: the response, the volume, and the stages that ran.\<close>

datatype stage =
    AUTHENTICATE | UPLOAD_SINGLE | VALIDATE_FILE_UPLOAD | UPLOAD_HANDLER
  | VALIDATE_FILENAME | DELETE_HANDLER | ERROR_HANDLER

record outcome =
  resp :: response
  disk_after :: fs_state
  stages_run :: "stage list"

definition upload_handler :: "environment \<Rightarrow> multer_file \<Rightarrow> response" where
  "upload_handler environment file =
     \<lparr>status = 200,
      body = UploadBody (baseUrl environment @ js ''/files/'' @ filename file) (filename file)
               (originalname file) (fsize file) (mimetype file)\<rparr>"

text \<open>
  \<^verbatim>\<open>router.post('/upload', authenticate, upload.single('file'), validateFileUpload, handler)\<close>,
  with \<^verbatim>\<open>errorHandler\<close> installed after the router: an error passed to
  \<^verbatim>\<open>next\<close> skips the remaining stages.
\<close>

definition upload_route ::
  "environment \<Rightarrow> jsstring \<Rightarrow> (nat \<Rightarrow> jsstring) \<Rightarrow> bool \<Rightarrow> upload_request \<Rightarrow> fs_state
     \<Rightarrow> outcome" where
  "upload_route environment dirname uuids inclusive req fs =
     (case authenticate environment (authorization req) of
        Respond r \<Rightarrow> \<lparr>resp = r, disk_after = fs, stages_run = [AUTHENTICATE]\<rparr>
      | Next u \<Rightarrow>
          (case upload_single environment dirname uuids inclusive (js ''file'') req fs of
             (Inl err, fs1) \<Rightarrow>
               \<lparr>resp = errorHandler err, disk_after = fs1,
                stages_run = [AUTHENTICATE, UPLOAD_SINGLE, ERROR_HANDLER]\<rparr>
           | (Inr file, fs1) \<Rightarrow>
               (case validateFileUpload file of
                  Respond r \<Rightarrow>
                    \<lparr>resp = r, disk_after = fs1,
                     stages_run = [AUTHENTICATE, UPLOAD_SINGLE, VALIDATE_FILE_UPLOAD]\<rparr>
                | Next f \<Rightarrow>
                    \<lparr>resp = upload_handler environment f, disk_after = fs1,
                     stages_run = [AUTHENTICATE, UPLOAD_SINGLE, VALIDATE_FILE_UPLOAD, UPLOAD_HANDLER]\<rparr>)))"

text \<open>The \<^verbatim>\<open>catch\<close> of the delete handler.\<close>

definition delete_failed :: "jsstring \<Rightarrow> response" where
  "delete_failed code =
     (if code = js ''EACCES'' then
        \<lparr>status = 403,
         body = ErrorBody (js ''Permission denied'') (js ''Access to the file is denied'')\<rparr>
      else
        \<lparr>status = 500,
         body = ErrorBody (js ''Delete failed'') (js ''An error occurred while deleting the file'')\<rparr>)"

definition delete_handler ::
  "environment \<Rightarrow> jsstring \<Rightarrow> jsstring \<Rightarrow> fs_state \<Rightarrow> response \<times> fs_state" where
  "delete_handler environment dirname fname fs =
     (let filePath = path_join [dirname, js ''..'', volumePath environment, fname] in
      if \<not> existsSync fs filePath then
        (\<lparr>status = 404,
          body = ErrorBody (js ''File not found'') (js ''The specified file does not exist'')\<rparr>, fs)
      else
        (case statSync fs filePath of
           Inl code \<Rightarrow> (delete_failed code, fs)
         | Inr sz \<Rightarrow>
             (case unlinkSync fs filePath of
                Inl code \<Rightarrow> (delete_failed code, fs)
              | Inr fs' \<Rightarrow>
                  (\<lparr>status = 200,
                    body = DeleteBody (js ''File successfully deleted'') fname sz\<rparr>, fs'))))"

text \<open>\<^verbatim>\<open>router.delete('/delete', authenticate, validateFilename, handler)\<close>.\<close>

definition delete_route ::
  "environment \<Rightarrow> jsstring \<Rightarrow> delete_request \<Rightarrow> fs_state \<Rightarrow> outcome" where
  "delete_route environment dirname req fs =
     (case authenticate environment (authorization req) of
        Respond r \<Rightarrow> \<lparr>resp = r, disk_after = fs, stages_run = [AUTHENTICATE]\<rparr>
      | Next u \<Rightarrow>
          (case validateFilename (query_filename req) of
             Respond r \<Rightarrow> \<lparr>resp = r, disk_after = fs, stages_run = [AUTHENTICATE, VALIDATE_FILENAME]\<rparr>
           | Next fname \<Rightarrow>
               (case delete_handler environment dirname fname fs of
                  (r, fs') \<Rightarrow>
                    \<lparr>resp = r, disk_after = fs',
                     stages_run = [AUTHENTICATE, VALIDATE_FILENAME, DELETE_HANDLER]\<rparr>)))"

section \<open>A sample deployment\<close>

text \<open>
  A configuration with a secret and the volume at \<^verbatim>\<open>uploads\<close>, the routes module in
  \<^verbatim>\<open>/app/src/routes\<close>, and a volume holding one upload next to the application's own
  \<^verbatim>\<open>index.js\<close>; the operating system refuses to unlink the storage root, a directory.
\<close>

definition sample_environment :: environment where
  "sample_environment =
     load_environment [''AUTH_TOKEN'' \<mapsto> js ''s3cret'', ''VOLUME_PATH'' \<mapsto> js ''uploads'']
       (js ''/app/src/config'')"

definition sample_dirname :: jsstring where
  "sample_dirname = js ''/app/src/routes''"

definition sample_disk :: fs_state where
  "sample_disk =
     \<lparr>entries = [js ''/app/src/uploads'' \<mapsto> 4096, js ''/app/src/uploads/abc.png'' \<mapsto> 5,
                 js ''/app/src/index.js'' \<mapsto> 77],
      dir_size = 4096, mkdir_fault = Map.empty, write_fault = Map.empty,
      unlink_fault = [js ''/app/src/uploads'' \<mapsto> js ''EISDIR'']\<rparr>"

definition sample_delete :: "jsstring \<Rightarrow> delete_request" where
  "sample_delete fname =
     \<lparr>authorization = Some (js ''Bearer s3cret''), query_filename = Some (QString fname)\<rparr>"

definition sample_upload :: "file_part list \<Rightarrow> upload_request" where
  "sample_upload parts =
     \<lparr>authorization = Some (js ''Bearer s3cret''), multipart = True, file_parts = parts\<rparr>"

section \<open>String literals\<close>

lemma of_char_16_inject: "(of_char c :: 16 word) = of_char d \<longleftrightarrow> c = d"
proof
  assume h: "(of_char c :: 16 word) = of_char d"
  have "unat (of_char c :: 16 word) = of_char c" for c :: char
  proof -
    have "(of_char c :: nat) mod 256 = of_char c"
      by (rule of_char_mod_256)
    then have "(of_char c :: nat) < 256"
      by (metis mod_less_divisor zero_less_numeral)
    then have "(of_char c :: nat) < 2 ^ LENGTH(16)"
      by (rule less_trans) simp
    then show ?thesis
      by (metis of_nat_of_char unat_of_nat mod_less)
  qed
  then have "(of_char c :: nat) = of_char d" using h by metis
  then show "c = d" by simp
qed simp

lemma js_inject [simp]: "js a = js b \<longleftrightarrow> a = b"
  unfolding js_def by (simp add: inj_map_eq_map inj_def of_char_16_inject)

lemma js_Nil [simp]: "js s = [] \<longleftrightarrow> s = []" "[] = js s \<longleftrightarrow> s = []"
  by (auto simp: js_def)

lemma js_append: "js a @ js b = js (a @ b)"
  by (simp add: js_def)

section \<open>The authenticator\<close>

lemma authenticate_Next_iff:
  "authenticate environment token = Next () \<longleftrightarrow>
     token = Some (js ''Bearer '' @ template (authToken environment))"
  by (cases token) (auto simp: authenticate_def falsy_def js_def)

lemma authenticate_missing:
  "token = None \<or> token = Some [] \<Longrightarrow>
     authenticate environment token =
       Respond \<lparr>status = 401,
                body = ErrorBody (js ''Missing authorization'') (js ''Authorization header is required'')\<rparr>"
  by (auto simp: authenticate_def falsy_def)

lemma authenticate_invalid:
  "token = Some h \<Longrightarrow> h \<noteq> [] \<Longrightarrow> h \<noteq> js ''Bearer '' @ template (authToken environment) \<Longrightarrow>
     authenticate environment token =
       Respond \<lparr>status = 401,
                body = ErrorBody (js ''Invalid token'') (js ''Invalid authorization token'')\<rparr>"
  by (simp add: authenticate_def falsy_def)

lemma authenticate_status:
  "authenticate environment token = Respond r \<Longrightarrow> status r = 401"
  by (auto simp: authenticate_def split: if_splits)

lemma authenticate_cases:
  obtains "authenticate environment token = Next ()"
    | r where "authenticate environment token = Respond r"
  by (cases "authenticate environment token") auto

lemma upload_route_rejected:
  assumes "authenticate environment (authorization req) = Respond r"
  shows "upload_route environment dirname uuids inclusive req fs =
           \<lparr>resp = r, disk_after = fs, stages_run = [AUTHENTICATE]\<rparr>"
  using assms by (simp add: upload_route_def)

lemma delete_route_rejected:
  assumes "authenticate environment (authorization req) = Respond r"
  shows "delete_route environment dirname req fs =
           \<lparr>resp = r, disk_after = fs, stages_run = [AUTHENTICATE]\<rparr>"
  using assms by (simp add: delete_route_def)

text \<open>
  C1, as amended. When \<^verbatim>\<open>AUTH_TOKEN\<close> is not set, the authenticator compares the
  header with the text \<^verbatim>\<open>Bearer undefined\<close>: exactly the requests carrying that header
  pass, and every other upload or delete request stops at the authenticator and leaves
  the volume as it was.
\<close>

theorem unset_secret_admits_bearer_undefined:
  assumes "env ''AUTH_TOKEN'' = None"
  shows "(authenticate (load_environment env cfgdir) token = Next ()
            \<longleftrightarrow> token = Some (js ''Bearer undefined''))
       \<and> (authorization ureq \<noteq> Some (js ''Bearer undefined'') \<longrightarrow>
            stages_run (upload_route (load_environment env cfgdir) dirname uuids inclusive ureq fs) = [AUTHENTICATE]
          \<and> disk_after (upload_route (load_environment env cfgdir) dirname uuids inclusive ureq fs) = fs)
       \<and> (authorization dreq \<noteq> Some (js ''Bearer undefined'') \<longrightarrow>
            stages_run (delete_route (load_environment env cfgdir) dirname dreq fs) = [AUTHENTICATE]
          \<and> disk_after (delete_route (load_environment env cfgdir) dirname dreq fs) = fs)"
proof -
  let ?E = "load_environment env cfgdir"
  have expected: "js ''Bearer '' @ template (authToken ?E) = js ''Bearer undefined''"
    using assms by (simp add: load_environment_def template_def js_append)
  have pass: "authenticate ?E t = Next () \<longleftrightarrow> t = Some (js ''Bearer undefined'')" for t
    by (simp only: authenticate_Next_iff expected)
  have up: "stages_run (upload_route ?E dirname uuids inclusive ureq fs) = [AUTHENTICATE]
          \<and> disk_after (upload_route ?E dirname uuids inclusive ureq fs) = fs"
    if "authorization ureq \<noteq> Some (js ''Bearer undefined'')"
  proof (rule authenticate_cases [of ?E "authorization ureq"])
    assume "authenticate ?E (authorization ureq) = Next ()"
    with pass that show ?thesis by blast
  next
    fix r assume "authenticate ?E (authorization ureq) = Respond r"
    then show ?thesis by (simp add: upload_route_rejected)
  qed
  have del: "stages_run (delete_route ?E dirname dreq fs) = [AUTHENTICATE]
          \<and> disk_after (delete_route ?E dirname dreq fs) = fs"
    if "authorization dreq \<noteq> Some (js ''Bearer undefined'')"
  proof (rule authenticate_cases [of ?E "authorization dreq"])
    assume "authenticate ?E (authorization dreq) = Next ()"
    with pass that show ?thesis by blast
  next
    fix r assume "authenticate ?E (authorization dreq) = Respond r"
    then show ?thesis by (simp add: delete_route_rejected)
  qed
  from pass up del show ?thesis by blast
qed

theorem unset_secret_admits_bearer_undefined_witness:
  "(Map.empty :: string \<rightharpoonup> jsstring) ''AUTH_TOKEN'' = None
   \<and> authenticate (load_environment Map.empty (js ''/app/src/config'')) (Some (js ''Bearer s3cret'')) \<noteq> Next ()
   \<and> authenticate (load_environment Map.empty (js ''/app/src/config'')) None \<noteq> Next ()"
  using unset_secret_admits_bearer_undefined [of Map.empty "js ''/app/src/config''" "Some (js ''Bearer s3cret'')"]
    unset_secret_admits_bearer_undefined [of Map.empty "js ''/app/src/config''" None]
  by simp

text \<open>
  C1 as stated fails: with no \<^verbatim>\<open>AUTH_TOKEN\<close> in the environment, the header
  \<^verbatim>\<open>Bearer undefined\<close> passes the authenticator, and a delete request carrying it
  reaches the handler and removes the file.
\<close>

theorem unset_secret_counterexample:
  "authToken (load_environment Map.empty (js ''/app/src/config'')) = None
   \<and> authenticate (load_environment Map.empty (js ''/app/src/config''))
        (Some (js ''Bearer undefined'')) = Next ()
   \<and> stages_run (delete_route (load_environment Map.empty (js ''/app/src/config'')) sample_dirname
        \<lparr>authorization = Some (js ''Bearer undefined''),
         query_filename = Some (QString (js ''abc.png''))\<rparr> sample_disk)
       = [AUTHENTICATE, VALIDATE_FILENAME, DELETE_HANDLER]
   \<and> status (resp (delete_route (load_environment Map.empty (js ''/app/src/config'')) sample_dirname
        \<lparr>authorization = Some (js ''Bearer undefined''),
         query_filename = Some (QString (js ''abc.png''))\<rparr> sample_disk)) = 200
   \<and> entries sample_disk (js ''/app/src/uploads/abc.png'') = Some 5
   \<and> entries (disk_after (delete_route (load_environment Map.empty (js ''/app/src/config'')) sample_dirname
        \<lparr>authorization = Some (js ''Bearer undefined''),
         query_filename = Some (QString (js ''abc.png''))\<rparr> sample_disk))
        (js ''/app/src/uploads/abc.png'') = None"
proof -
  let ?E = "load_environment Map.empty (js ''/app/src/config'')"
  have t: "authToken ?E = None"
    by (simp add: load_environment_def)
  have a: "authenticate ?E (Some (js ''Bearer undefined'')) = Next ()"
    by (simp add: authenticate_Next_iff t template_def js_append)
  have v: "validateFilename (Some (QString (js ''abc.png''))) = Next (js ''abc.png'')"
    by code_simp
  have p: "path_join [sample_dirname, js ''..'', volumePath ?E, js ''abc.png''] = js ''/app/src/uploads/abc.png''"
    by code_simp
  have e: "entries sample_disk (js ''/app/src/uploads/abc.png'') = Some 5"
    "unlink_fault sample_disk (js ''/app/src/uploads/abc.png'') = None"
    by (simp_all add: sample_disk_def)
  have h: "delete_handler ?E sample_dirname (js ''abc.png'') sample_disk =
      (\<lparr>status = 200, body = DeleteBody (js ''File successfully deleted'') (js ''abc.png'') 5\<rparr>,
       sample_disk\<lparr>entries := (entries sample_disk)(js ''/app/src/uploads/abc.png'' := None)\<rparr>)"
    by (simp add: delete_handler_def existsSync_def statSync_def unlinkSync_def p e)
  show ?thesis
    by (simp add: t a e h delete_route_def v)
qed

text \<open>
  C3, as amended. A header that is absent or empty is answered 401 "Missing authorization";
  a non-empty header other than \<^verbatim>\<open>Bearer \<close> followed by the secret is answered 401
  "Invalid token"; the header equal to that text passes to the next stage.
\<close>

theorem authenticate_three_outcomes:
  "(token = None \<or> token = Some [] \<longrightarrow>
      authenticate environment token =
        Respond \<lparr>status = 401,
                 body = ErrorBody (js ''Missing authorization'') (js ''Authorization header is required'')\<rparr>)
   \<and> (token = Some h \<and> h \<noteq> [] \<and> h \<noteq> js ''Bearer '' @ template (authToken environment) \<longrightarrow>
      authenticate environment token =
        Respond \<lparr>status = 401,
                 body = ErrorBody (js ''Invalid token'') (js ''Invalid authorization token'')\<rparr>)
   \<and> (token = Some (js ''Bearer '' @ template (authToken environment)) \<longrightarrow>
      authenticate environment token = Next ())"
  using authenticate_missing [of token environment] authenticate_invalid [of token h environment]
    authenticate_Next_iff [of environment token]
  by blast

theorem authenticate_three_outcomes_witness:
  "authenticate (load_environment [''AUTH_TOKEN'' \<mapsto> js ''s3cret''] (js ''/app/src/config'')) None =
     Respond \<lparr>status = 401,
              body = ErrorBody (js ''Missing authorization'') (js ''Authorization header is required'')\<rparr>
   \<and> authenticate (load_environment [''AUTH_TOKEN'' \<mapsto> js ''s3cret''] (js ''/app/src/config''))
        (Some (js ''Bearer wrong'')) =
     Respond \<lparr>status = 401,
              body = ErrorBody (js ''Invalid token'') (js ''Invalid authorization token'')\<rparr>
   \<and> authenticate (load_environment [''AUTH_TOKEN'' \<mapsto> js ''s3cret''] (js ''/app/src/config''))
        (Some (js ''Bearer s3cret'')) = Next ()"
  using
    authenticate_three_outcomes [where token = None
      and environment = "load_environment [''AUTH_TOKEN'' \<mapsto> js ''s3cret''] (js ''/app/src/config'')"]
    authenticate_three_outcomes [where token = "Some (js ''Bearer wrong'')" and h = "js ''Bearer wrong''"
      and environment = "load_environment [''AUTH_TOKEN'' \<mapsto> js ''s3cret''] (js ''/app/src/config'')"]
    authenticate_three_outcomes [where token = "Some (js ''Bearer s3cret'')"
      and environment = "load_environment [''AUTH_TOKEN'' \<mapsto> js ''s3cret''] (js ''/app/src/config'')"]
  by (simp add: load_environment_def template_def js_append)

text \<open>
  C3 as stated fails: an \<^verbatim>\<open>Authorization\<close> header that is present with an empty value
  differs from \<^verbatim>\<open>Bearer s3cret\<close>, yet it is answered "Missing authorization", not
  "Invalid token".
\<close>

theorem empty_header_counterexample:
  "Some [] \<noteq> Some (js ''Bearer '' @ template (authToken
       (load_environment [''AUTH_TOKEN'' \<mapsto> js ''s3cret''] (js ''/app/src/config''))))
   \<and> authenticate (load_environment [''AUTH_TOKEN'' \<mapsto> js ''s3cret''] (js ''/app/src/config'')) (Some []) =
       Respond \<lparr>status = 401,
                body = ErrorBody (js ''Missing authorization'') (js ''Authorization header is required'')\<rparr>
   \<and> authenticate (load_environment [''AUTH_TOKEN'' \<mapsto> js ''s3cret''] (js ''/app/src/config'')) (Some []) \<noteq>
       Respond \<lparr>status = 401,
                body = ErrorBody (js ''Invalid token'') (js ''Invalid authorization token'')\<rparr>"
  by (simp add: load_environment_def authenticate_def falsy_def template_def js_append)

text \<open>
  C5. An upload request whose \<^verbatim>\<open>Authorization\<close> header is missing or is not
  \<^verbatim>\<open>Bearer \<close> followed by the secret is answered 401 by the authenticator, no later
  stage runs, and the volume is unchanged.
\<close>

theorem unauthenticated_upload_writes_nothing:
  assumes "authorization req \<noteq> Some (js ''Bearer '' @ template (authToken environment))"
  shows "status (resp (upload_route environment dirname uuids inclusive req fs)) = 401
       \<and> disk_after (upload_route environment dirname uuids inclusive req fs) = fs
       \<and> stages_run (upload_route environment dirname uuids inclusive req fs) = [AUTHENTICATE]"
proof (rule authenticate_cases [of environment "authorization req"])
  assume "authenticate environment (authorization req) = Next ()"
  with assms show ?thesis by (simp add: authenticate_Next_iff)
next
  fix r assume r: "authenticate environment (authorization req) = Respond r"
  then have "status r = 401" by (rule authenticate_status)
  with r show ?thesis by (simp add: upload_route_rejected)
qed

theorem unauthenticated_upload_writes_nothing_witness:
  "authorization \<lparr>authorization = Some (js ''Bearer wrong''), multipart = True,
       file_parts = [\<lparr>fieldname = js ''file'', originalname = js ''a.png'',
                      mimetype = js ''image/png'', bytes = 3\<rparr>]\<rparr>
     \<noteq> Some (js ''Bearer '' @ template (authToken
          (load_environment [''AUTH_TOKEN'' \<mapsto> js ''s3cret''] (js ''/app/src/config''))))
   \<and> status (resp (upload_route
        (load_environment [''AUTH_TOKEN'' \<mapsto> js ''s3cret''] (js ''/app/src/config''))
        (js ''/app/src/routes'') (\<lambda>k. js ''u'') True
        \<lparr>authorization = Some (js ''Bearer wrong''), multipart = True,
         file_parts = [\<lparr>fieldname = js ''file'', originalname = js ''a.png'',
                        mimetype = js ''image/png'', bytes = 3\<rparr>]\<rparr>
        \<lparr>entries = Map.empty, dir_size = 4096, mkdir_fault = Map.empty,
         write_fault = Map.empty, unlink_fault = Map.empty\<rparr>)) = 401"
  using unauthenticated_upload_writes_nothing
    [where req = "\<lparr>authorization = Some (js ''Bearer wrong''), multipart = True,
         file_parts = [\<lparr>fieldname = js ''file'', originalname = js ''a.png'',
                        mimetype = js ''image/png'', bytes = 3\<rparr>]\<rparr>"
       and environment = "load_environment [''AUTH_TOKEN'' \<mapsto> js ''s3cret''] (js ''/app/src/config'')"
       and dirname = "js ''/app/src/routes''" and uuids = "\<lambda>k. js ''u''" and inclusive = True
       and fs = "\<lparr>entries = Map.empty, dir_size = 4096, mkdir_fault = Map.empty,
          write_fault = Map.empty, unlink_fault = Map.empty\<rparr>"]
  by (simp add: load_environment_def template_def js_append)

section \<open>The filename validator\<close>

lemma validateFilename_missing_iff:
  "validateFilename q =
     Respond \<lparr>status = 400,
              body = ErrorBody (js ''Missing required parameter'') (js ''filename is required'')\<rparr>
   \<longleftrightarrow> q = None \<or> q = Some (QString [])"
proof (cases q)
  case None
  then show ?thesis by (simp add: validateFilename_def)
next
  case (Some v)
  then show ?thesis by (cases v) (simp_all add: validateFilename_def)
qed

lemma validateFilename_not_string:
  assumes "\<forall>s. v \<noteq> QString s"
  shows "validateFilename (Some v) =
     Respond \<lparr>status = 400,
              body = ErrorBody (js ''Invalid parameter'') (js ''filename must be a non-empty string'')\<rparr>"
  using assms by (cases v) (simp_all add: validateFilename_def)

lemma validateFilename_string:
  "validateFilename (Some (QString s)) =
     (if s = [] then
        Respond \<lparr>status = 400,
                 body = ErrorBody (js ''Missing required parameter'') (js ''filename is required'')\<rparr>
      else if trim s = [] then
        Respond \<lparr>status = 400,
                 body = ErrorBody (js ''Invalid parameter'') (js ''filename must be a non-empty string'')\<rparr>
      else Next (trim s))"
  by (simp add: validateFilename_def)

lemma validateFilename_invalid_iff:
  "validateFilename q =
     Respond \<lparr>status = 400,
              body = ErrorBody (js ''Invalid parameter'') (js ''filename must be a non-empty string'')\<rparr>
   \<longleftrightarrow> (\<exists>v. q = Some v \<and> v \<noteq> QString [] \<and> (\<forall>s. v = QString s \<longrightarrow> trim s = []))"
proof (cases q)
  case None
  then show ?thesis by (simp add: validateFilename_def)
next
  case (Some v)
  then show ?thesis
    by (cases v) (simp_all add: validateFilename_string validateFilename_not_string)
qed

lemma delete_route_invalid:
  assumes "authenticate environment (authorization req) = Next ()"
    and "validateFilename (query_filename req) = Respond r"
  shows "delete_route environment dirname req fs =
           \<lparr>resp = r, disk_after = fs, stages_run = [AUTHENTICATE, VALIDATE_FILENAME]\<rparr>"
  using assms by (simp add: delete_route_def)

lemma delete_route_handled:
  assumes "authenticate environment (authorization req) = Next ()"
    and "validateFilename (query_filename req) = Next f"
  shows "delete_route environment dirname req fs =
           \<lparr>resp = fst (delete_handler environment dirname f fs),
            disk_after = snd (delete_handler environment dirname f fs),
            stages_run = [AUTHENTICATE, VALIDATE_FILENAME, DELETE_HANDLER]\<rparr>"
  using assms by (simp add: delete_route_def split: prod.splits)

text \<open>
  C4, as amended. The filename validator answers 400 "Missing required parameter" exactly
  when the \<^verbatim>\<open>filename\<close> query parameter is absent or is the empty string; it
  answers 400 "Invalid parameter" exactly when the parameter is present, is not the empty
  string, and is either not a string or a string that trimming leaves empty; otherwise it
  succeeds and the delete handler runs on the trimmed value.
\<close>

theorem validateFilename_outcomes:
  "(validateFilename q =
      Respond \<lparr>status = 400,
               body = ErrorBody (js ''Missing required parameter'') (js ''filename is required'')\<rparr>
    \<longleftrightarrow> q = None \<or> q = Some (QString []))
   \<and> (validateFilename q =
      Respond \<lparr>status = 400,
               body = ErrorBody (js ''Invalid parameter'') (js ''filename must be a non-empty string'')\<rparr>
    \<longleftrightarrow> (\<exists>v. q = Some v \<and> v \<noteq> QString [] \<and> (\<forall>s. v = QString s \<longrightarrow> trim s = [])))
   \<and> (q = Some (QString s) \<and> trim s \<noteq> [] \<longrightarrow>
        validateFilename q = Next (trim s)
      \<and> (authenticate environment (authorization req) = Next () \<and> query_filename req = q \<longrightarrow>
           delete_route environment dirname req fs =
             \<lparr>resp = fst (delete_handler environment dirname (trim s) fs),
              disk_after = snd (delete_handler environment dirname (trim s) fs),
              stages_run = [AUTHENTICATE, VALIDATE_FILENAME, DELETE_HANDLER]\<rparr>))"
proof -
  have ok: "validateFilename q = Next (trim s)" if "q = Some (QString s)" "trim s \<noteq> []"
  proof -
    from that have "s \<noteq> []" by (auto simp: trim_def)
    with that show ?thesis by (simp add: validateFilename_string)
  qed
  have route: "delete_route environment dirname req fs =
             \<lparr>resp = fst (delete_handler environment dirname (trim s) fs),
              disk_after = snd (delete_handler environment dirname (trim s) fs),
              stages_run = [AUTHENTICATE, VALIDATE_FILENAME, DELETE_HANDLER]\<rparr>"
    if "q = Some (QString s)" "trim s \<noteq> []"
      "authenticate environment (authorization req) = Next ()" "query_filename req = q"
    using that ok by (simp add: delete_route_handled)
  from ok route show ?thesis
    by (simp only: validateFilename_missing_iff validateFilename_invalid_iff) blast
qed

theorem validateFilename_outcomes_witness:
  "validateFilename (Some (QString (js '' a.png ''))) = Next (js ''a.png'')
   \<and> validateFilename (Some (QString (js ''   ''))) =
      Respond \<lparr>status = 400,
               body = ErrorBody (js ''Invalid parameter'') (js ''filename must be a non-empty string'')\<rparr>
   \<and> validateFilename None =
      Respond \<lparr>status = 400,
               body = ErrorBody (js ''Missing required parameter'') (js ''filename is required'')\<rparr>"
proof -
  have t1: "trim (js '' a.png '') = js ''a.png''" by code_simp
  have t2: "trim (js ''   '') = []" by code_simp
  show ?thesis
    using validateFilename_outcomes [where q = "Some (QString (js '' a.png ''))" and s = "js '' a.png ''"]
      validateFilename_outcomes [where q = "Some (QString (js ''   ''))"]
      validateFilename_outcomes [where q = None]
    by (simp add: t1 t2)
qed

text \<open>
  C4 as stated fails: \<^verbatim>\<open>?filename=\<close> gives a parameter that is present and empty
  after trimming, and the validator answers "Missing required parameter", not
  "Invalid parameter".
\<close>

theorem empty_filename_counterexample:
  "validateFilename (Some (QString [])) =
      Respond \<lparr>status = 400,
               body = ErrorBody (js ''Missing required parameter'') (js ''filename is required'')\<rparr>
   \<and> validateFilename (Some (QString [])) \<noteq>
      Respond \<lparr>status = 400,
               body = ErrorBody (js ''Invalid parameter'') (js ''filename must be a non-empty string'')\<rparr>
   \<and> trim [] = []"
  by (simp add: validateFilename_def trim_def)

text \<open>
  C10. A \<^verbatim>\<open>filename\<close> query value that is present but not a string (an array or an
  object) is answered 400 "Invalid parameter" by the validator; in the delete route the
  handler does not run and the volume is unchanged.
\<close>

theorem non_string_filename_is_invalid:
  assumes "\<forall>s. v \<noteq> QString s"
  shows "validateFilename (Some v) =
           Respond \<lparr>status = 400,
                    body = ErrorBody (js ''Invalid parameter'') (js ''filename must be a non-empty string'')\<rparr>
       \<and> (authenticate environment (authorization req) = Next () \<and> query_filename req = Some v \<longrightarrow>
            delete_route environment dirname req fs =
              \<lparr>resp = \<lparr>status = 400,
                        body = ErrorBody (js ''Invalid parameter'') (js ''filename must be a non-empty string'')\<rparr>,
               disk_after = fs, stages_run = [AUTHENTICATE, VALIDATE_FILENAME]\<rparr>)"
  using validateFilename_not_string [OF assms] by (simp add: delete_route_invalid)

theorem non_string_filename_is_invalid_witness:
  "(\<forall>s. QArray [QString (js ''a.png''), QString (js ''b.png'')] \<noteq> QString s)
   \<and> validateFilename (Some (QArray [QString (js ''a.png''), QString (js ''b.png'')])) =
       Respond \<lparr>status = 400,
                body = ErrorBody (js ''Invalid parameter'') (js ''filename must be a non-empty string'')\<rparr>"
  using non_string_filename_is_invalid [where v = "QArray [QString (js ''a.png''), QString (js ''b.png'')]"]
  by simp

section \<open>Joining paths\<close>

lemma split_on_not_Nil [simp]: "split_on c xs \<noteq> []"
  by (induction xs) (auto split: list.splits)

lemma split_on_append: "split_on c (xs @ c # ys) = split_on c xs @ split_on c ys"
proof (induction xs)
  case Nil
  show ?case by simp
next
  case (Cons x xs)
  obtain s ss where s: "split_on c xs = s # ss"
    by (cases "split_on c xs") auto
  with Cons show ?case by simp
qed

lemma split_on_free: "c \<notin> set s \<Longrightarrow> split_on c s = [s]"
  by (induction s) auto

lemma split_on_segments: "s \<in> set (split_on c xs) \<Longrightarrow> c \<notin> set s"
proof (induction xs arbitrary: s)
  case Nil
  then show ?case by simp
next
  case (Cons x xs)
  obtain t ts where t: "split_on c xs = t # ts"
    by (cases "split_on c xs") auto
  with Cons show ?case by (auto split: if_splits)
qed

lemma split_on_intercalate:
  "segs \<noteq> [] \<Longrightarrow> \<forall>s \<in> set segs. c \<notin> set s \<Longrightarrow> split_on c (intercalate c segs) = segs"
proof (induction c segs rule: intercalate.induct)
  case (1 c)
  then show ?case by simp
next
  case (2 c s)
  then show ?case by (simp add: split_on_free)
next
  case (3 c s t ss)
  then show ?case by (simp add: split_on_append split_on_free)
qed

lemma intercalate_snoc: "ys \<noteq> [] \<Longrightarrow> intercalate c (ys @ [f]) = intercalate c ys @ c # f"
  by (induction c ys rule: intercalate.induct) auto

lemma intercalate_Nil_iff: "\<forall>s \<in> set segs. s \<noteq> [] \<Longrightarrow> intercalate c segs = [] \<longleftrightarrow> segs = []"
  by (induction c segs rule: intercalate.induct) auto

lemma hd_intercalate: "segs \<noteq> [] \<Longrightarrow> hd segs \<noteq> [] \<Longrightarrow> hd (intercalate c segs) = hd (hd segs)"
  by (induction c segs rule: intercalate.induct) auto

lemma SLASH_neq_DOT [simp]: "SLASH \<noteq> DOT" "DOT \<noteq> SLASH"
  by (simp_all add: SLASH_def DOT_def)

lemma normal_stack_all_dotdot:
  "a \<Longrightarrow> \<forall>t \<in> set stack. t = [DOT, DOT] \<Longrightarrow> normal_stack a stack"
  by (induction stack) auto

lemma normal_stack_step:
  assumes "normal_stack a stack" and "SLASH \<notin> set seg"
  shows "normal_stack a (normalize_step a stack seg)"
proof (cases stack)
  case Nil
  with assms show ?thesis by (auto simp: normalize_step_def)
next
  case (Cons t rest)
  with assms show ?thesis
    by (auto simp: normalize_step_def normal_stack_all_dotdot split: if_splits)
qed

lemma normal_stack_foldl:
  assumes "normal_stack a stack" and "\<forall>s \<in> set segs. SLASH \<notin> set s"
  shows "normal_stack a (foldl (normalize_step a) stack segs)"
  using assms by (induction segs arbitrary: stack) (auto simp: normal_stack_step)

lemma normal_stack_split:
  "normal_stack a (foldl (normalize_step a) [] (split_on SLASH p))"
  by (rule normal_stack_foldl) (auto dest: split_on_segments)

lemma normal_stack_segments:
  "normal_stack a stack \<Longrightarrow> s \<in> set stack \<Longrightarrow> s \<noteq> [] \<and> SLASH \<notin> set s"
proof (induction stack)
  case Nil
  then show ?case by simp
next
  case (Cons t stack)
  show ?case
  proof (cases "s = t")
    case True
    with Cons.prems(1) show ?thesis by simp
  next
    case False
    with Cons.prems(2) have mem: "s \<in> set stack" by simp
    show ?thesis
    proof (cases "t = [DOT, DOT]")
      case True
      with Cons.prems(1) mem have "s = [DOT, DOT]" by simp
      then show ?thesis by simp
    next
      case False
      with Cons.prems(1) have "normal_stack a stack" by simp
      then show ?thesis using mem by (rule Cons.IH)
    qed
  qed
qed

lemma normal_stack_replay:
  "normal_stack a stack \<Longrightarrow> foldl (normalize_step a) [] (rev stack) = stack"
proof (induction stack)
  case Nil
  show ?case by simp
next
  case (Cons s stack)
  have n: "normal_stack a stack"
    using Cons.prems by (auto simp: normal_stack_all_dotdot split: if_splits)
  have "foldl (normalize_step a) [] (rev (s # stack)) = normalize_step a stack s"
    by (simp add: Cons.IH [OF n])
  also have "\<dots> = s # stack"
    using Cons.prems by (cases stack) (auto simp: normalize_step_def split: if_splits)
  finally show ?case .
qed


lemma render_normal_stack:
  assumes nS: "normal_stack a S"
    and N: "N = (if intercalate SLASH (rev S) = [] then
                   (if \<not> a then [SLASH] else if tr then [DOT, SLASH] else [DOT])
                 else (if \<not> a then [SLASH] else []) @ intercalate SLASH (rev S)
                        @ (if tr then [SLASH] else []))"
  shows "N \<noteq> []"
    and "hd N = SLASH \<longleftrightarrow> \<not> a"
    and "foldl (normalize_step a) [] (split_on SLASH N) = S"
proof -
  let ?p = "intercalate SLASH (rev S)"
  have segs: "\<forall>s \<in> set (rev S). s \<noteq> [] \<and> SLASH \<notin> set s"
    using normal_stack_segments [OF nS] by simp
  show "N \<noteq> []" by (simp add: N)
  show "hd N = SLASH \<longleftrightarrow> \<not> a"
  proof (cases "?p = []")
    case True
    then show ?thesis by (simp add: N)
  next
    case False
    then have ne: "rev S \<noteq> []" by auto
    then have "hd (rev S) \<in> set (rev S)" by (rule hd_in_set)
    with segs have h: "hd (rev S) \<noteq> []" "SLASH \<notin> set (hd (rev S))" by blast+
    then have "hd (hd (rev S)) \<noteq> SLASH" by (cases "hd (rev S)") auto
    with ne h have "hd ?p \<noteq> SLASH" by (simp add: hd_intercalate)
    with False show ?thesis by (simp add: N)
  qed
  show "foldl (normalize_step a) [] (split_on SLASH N) = S"
  proof (cases "?p = []")
    case True
    with segs have "S = []" by (simp add: intercalate_Nil_iff)
    with True show ?thesis by (simp add: N normalize_step_def)
  next
    case False
    then have ne: "rev S \<noteq> []" by auto
    have sp: "split_on SLASH ?p = rev S"
      using ne segs by (simp add: split_on_intercalate)
    have post: "foldl (normalize_step a) [] (split_on SLASH (?p @ (if tr then [SLASH] else []))) = S"
      using split_on_append [of SLASH ?p "[]"]
      by (simp add: sp normal_stack_replay [OF nS] normalize_step_def)
    have pre: "foldl (normalize_step a) [] (split_on SLASH ((if \<not> a then [SLASH] else []) @ q))
                 = foldl (normalize_step a) [] (split_on SLASH q)" for q
      using split_on_append [of SLASH "[]" q] by (simp add: normalize_step_def)
    from False have "N = (if \<not> a then [SLASH] else []) @ (?p @ (if tr then [SLASH] else []))"
      by (simp add: N)
    then show ?thesis by (simp only: pre post)
  qed
qed

lemma path_normalize_render:
  assumes "J \<noteq> []"
  shows "path_normalize J =
     (if intercalate SLASH (rev (foldl (normalize_step (hd J \<noteq> SLASH)) [] (split_on SLASH J))) = [] then
        (if \<not> (hd J \<noteq> SLASH) then [SLASH] else if last J = SLASH then [DOT, SLASH] else [DOT])
      else (if \<not> (hd J \<noteq> SLASH) then [SLASH] else [])
             @ intercalate SLASH (rev (foldl (normalize_step (hd J \<noteq> SLASH)) [] (split_on SLASH J)))
             @ (if last J = SLASH then [SLASH] else []))"
  using assms by (simp add: path_normalize_def normalizeString_def Let_def)

lemma path_normalize_again:
  assumes "J \<noteq> []"
  shows "path_normalize (path_normalize J @ SLASH # f) = path_normalize (J @ SLASH # f)"
proof -
  let ?N = "path_normalize J"
  let ?a = "hd J \<noteq> SLASH"
  note r = render_normal_stack [OF normal_stack_split path_normalize_render [OF assms]]
  have a1: "(hd (?N @ SLASH # f) = SLASH) = (hd J = SLASH)" using r(1,2) by simp
  have a2: "(hd (J @ SLASH # f) = SLASH) = (hd J = SLASH)" using assms by simp
  have lst: "last (?N @ SLASH # f) = last (J @ SLASH # f)"
    by simp
  have str: "normalizeString (?N @ SLASH # f) ?a = normalizeString (J @ SLASH # f) ?a"
    using r(3) by (simp add: normalizeString_def split_on_append)
  have ne: "?N @ SLASH # f \<noteq> []" "J @ SLASH # f \<noteq> []" by simp_all
  show ?thesis
    by (simp only: path_normalize_def [of "?N @ SLASH # f"] path_normalize_def [of "J @ SLASH # f"]
          Let_def a1 a2 lst str ne if_False)
qed

lemma path_join_pair:
  "x \<noteq> [] \<Longrightarrow> f \<noteq> [] \<Longrightarrow> path_join [x, f] = path_normalize (x @ SLASH # f)"
  by (simp add: path_join_def)

lemma path_join_snoc:
  assumes "filter (\<lambda>x. x \<noteq> []) xs \<noteq> []" and "f \<noteq> []"
  shows "path_join (xs @ [f]) = path_join [path_join xs, f]"
proof -
  let ?ys = "filter (\<lambda>x. x \<noteq> []) xs"
  let ?J = "intercalate SLASH ?ys"
  have J: "?J \<noteq> []"
    using assms(1) by (simp add: intercalate_Nil_iff)
  have l: "path_join (xs @ [f]) = path_normalize (?J @ SLASH # f)"
    using assms by (simp add: path_join_def intercalate_snoc)
  have N: "path_join xs = path_normalize ?J"
    using assms(1) by (simp add: path_join_def)
  have "path_normalize ?J \<noteq> []"
    by (rule render_normal_stack(1) [OF normal_stack_split path_normalize_render [OF J]])
  then have "path_join [path_normalize ?J, f] = path_normalize (path_normalize ?J @ SLASH # f)"
    using assms(2) by (rule path_join_pair)
  with l show ?thesis by (simp only: N path_normalize_again [OF J])
qed

lemma storage_root_join:
  "f \<noteq> [] \<Longrightarrow>
     path_join [dirname, js ''..'', volumePath environment, f] =
     path_join [path_join [dirname, js ''..'', volumePath environment], f]"
  using path_join_snoc [of "[dirname, js ''..'', volumePath environment]" f] by simp

section \<open>The delete handler\<close>

lemma delete_handler_absent:
  assumes "entries fs (path_join [dirname, js ''..'', volumePath environment, f]) = None"
  shows "delete_handler environment dirname f fs =
    (\<lparr>status = 404,
      body = ErrorBody (js ''File not found'') (js ''The specified file does not exist'')\<rparr>, fs)"
  using assms by (simp add: delete_handler_def existsSync_def)

lemma delete_handler_fault:
  assumes "entries fs (path_join [dirname, js ''..'', volumePath environment, f]) = Some n"
    and "unlink_fault fs (path_join [dirname, js ''..'', volumePath environment, f]) = Some code"
  shows "delete_handler environment dirname f fs = (delete_failed code, fs)"
  using assms by (simp add: delete_handler_def existsSync_def statSync_def unlinkSync_def)

lemma delete_handler_removed:
  assumes "entries fs (path_join [dirname, js ''..'', volumePath environment, f]) = Some n"
    and "unlink_fault fs (path_join [dirname, js ''..'', volumePath environment, f]) = None"
  shows "delete_handler environment dirname f fs =
    (\<lparr>status = 200, body = DeleteBody (js ''File successfully deleted'') f n\<rparr>,
     fs\<lparr>entries := (entries fs)(path_join [dirname, js ''..'', volumePath environment, f] := None)\<rparr>)"
  using assms by (simp add: delete_handler_def existsSync_def statSync_def unlinkSync_def)

text \<open>
  C7, as amended. For an authenticated delete request with a valid filename, with
  \<open>target\<close> the path the handler builds: when the target does not exist the answer is
  404 "File not found"; when it exists and the operating system refuses the unlink with
  \<^verbatim>\<open>EACCES\<close> the answer is 403 "Permission denied"; when the unlink fails with any
  other code the answer is 500 "Delete failed"; in these three cases the volume is
  unchanged. Otherwise the target is removed and the answer is 200 with the filename and
  the size \<^verbatim>\<open>stat\<close> reported before the removal.
\<close>

theorem delete_outcomes:
  assumes "authenticate environment (authorization req) = Next ()"
    and "validateFilename (query_filename req) = Next f"
    and "target = path_join [dirname, js ''..'', volumePath environment, f]"
    and "out = delete_route environment dirname req fs"
  shows "(entries fs target = None \<longrightarrow>
            resp out = \<lparr>status = 404,
                         body = ErrorBody (js ''File not found'') (js ''The specified file does not exist'')\<rparr>
          \<and> disk_after out = fs)
       \<and> (entries fs target = Some n \<and> unlink_fault fs target = Some (js ''EACCES'') \<longrightarrow>
            resp out = \<lparr>status = 403,
                         body = ErrorBody (js ''Permission denied'') (js ''Access to the file is denied'')\<rparr>
          \<and> disk_after out = fs)
       \<and> (entries fs target = Some n \<and> unlink_fault fs target = Some code \<and> code \<noteq> js ''EACCES'' \<longrightarrow>
            resp out = \<lparr>status = 500,
                         body = ErrorBody (js ''Delete failed'') (js ''An error occurred while deleting the file'')\<rparr>
          \<and> disk_after out = fs)
       \<and> (entries fs target = Some n \<and> unlink_fault fs target = None \<longrightarrow>
            resp out = \<lparr>status = 200, body = DeleteBody (js ''File successfully deleted'') f n\<rparr>
          \<and> disk_after out = fs\<lparr>entries := (entries fs)(target := None)\<rparr>)"
proof -
  have out: "resp out = fst (delete_handler environment dirname f fs)"
    "disk_after out = snd (delete_handler environment dirname f fs)"
    using assms(1,2,4) by (simp_all add: delete_route_handled)
  have a: "entries fs target = None \<Longrightarrow> delete_handler environment dirname f fs =
    (\<lparr>status = 404,
      body = ErrorBody (js ''File not found'') (js ''The specified file does not exist'')\<rparr>, fs)"
    unfolding assms(3) by (rule delete_handler_absent)
  have b: "entries fs target = Some n \<Longrightarrow> unlink_fault fs target = Some c \<Longrightarrow>
    delete_handler environment dirname f fs = (delete_failed c, fs)" for c
    unfolding assms(3) by (rule delete_handler_fault)
  have c: "entries fs target = Some n \<Longrightarrow> unlink_fault fs target = None \<Longrightarrow>
    delete_handler environment dirname f fs =
      (\<lparr>status = 200, body = DeleteBody (js ''File successfully deleted'') f n\<rparr>,
       fs\<lparr>entries := (entries fs)(target := None)\<rparr>)"
    unfolding assms(3) by (rule delete_handler_removed)
  show ?thesis
    using a b [of "js ''EACCES''"] b [of code] c
    by (auto simp: out delete_failed_def)
qed


lemma sample_authenticated:
  "authenticate sample_environment (Some (js ''Bearer s3cret'')) = Next ()"
  by (simp add: authenticate_Next_iff sample_environment_def load_environment_def template_def js_append)

lemma sample_volumePath: "volumePath sample_environment = js ''uploads''"
  by (simp add: sample_environment_def load_environment_def or_default_def falsy_def)

lemma sample_targets:
  "path_join [sample_dirname, js ''..'', js ''uploads'', js ''abc.png''] = js ''/app/src/uploads/abc.png''"
  "path_join [sample_dirname, js ''..'', js ''uploads'', js ''.''] = js ''/app/src/uploads''"
  "path_join [sample_dirname, js ''..'', js ''uploads'', js ''../index.js''] = js ''/app/src/index.js''"
  "path_join [sample_dirname, js ''..'', js ''uploads''] = js ''/app/src/uploads''"
  by code_simp+

lemma sample_filenames:
  "validateFilename (Some (QString (js '' abc.png ''))) = Next (js ''abc.png'')"
  "validateFilename (Some (QString (js ''.''))) = Next (js ''.'')"
  "validateFilename (Some (QString (js ''../index.js''))) = Next (js ''../index.js'')"
  by code_simp+

theorem delete_outcomes_witness:
  "authenticate sample_environment (authorization (sample_delete (js '' abc.png ''))) = Next ()
   \<and> validateFilename (query_filename (sample_delete (js '' abc.png ''))) = Next (js ''abc.png'')
   \<and> entries sample_disk (js ''/app/src/uploads/abc.png'') = Some 5
   \<and> resp (delete_route sample_environment sample_dirname (sample_delete (js '' abc.png '')) sample_disk) =
        \<lparr>status = 200, body = DeleteBody (js ''File successfully deleted'') (js ''abc.png'') 5\<rparr>
   \<and> entries (disk_after (delete_route sample_environment sample_dirname
         (sample_delete (js '' abc.png '')) sample_disk)) (js ''/app/src/uploads/abc.png'') = None"
proof -
  have a: "authenticate sample_environment (authorization (sample_delete (js '' abc.png ''))) = Next ()"
    by (simp add: sample_delete_def sample_authenticated)
  have v: "validateFilename (query_filename (sample_delete (js '' abc.png ''))) = Next (js ''abc.png'')"
    by (simp add: sample_delete_def sample_filenames)
  have e: "entries sample_disk (js ''/app/src/uploads/abc.png'') = Some 5"
    "unlink_fault sample_disk (js ''/app/src/uploads/abc.png'') = None"
    by (simp_all add: sample_disk_def)
  show ?thesis
    using delete_outcomes [OF a v refl refl, where n = 5 and dirname = sample_dirname and fs = sample_disk]
    by (simp add: a v e sample_volumePath sample_targets)
qed

text \<open>
  C7 as stated fails: \<^verbatim>\<open>DELETE /delete?filename=.\<close> targets the storage root itself,
  which exists; the unlink of a directory fails with \<^verbatim>\<open>EISDIR\<close>, and the answer is
  500 "Delete failed" with nothing removed: neither 404, nor 403, nor 200.
\<close>

theorem delete_directory_counterexample:
  "authenticate sample_environment (authorization (sample_delete (js ''.''))) = Next ()
   \<and> validateFilename (query_filename (sample_delete (js ''.''))) = Next (js ''.'')
   \<and> path_join [sample_dirname, js ''..'', volumePath sample_environment, js ''.''] = js ''/app/src/uploads''
   \<and> entries sample_disk (js ''/app/src/uploads'') = Some 4096
   \<and> unlink_fault sample_disk (js ''/app/src/uploads'') = Some (js ''EISDIR'')
   \<and> resp (delete_route sample_environment sample_dirname (sample_delete (js ''.'')) sample_disk) =
        \<lparr>status = 500,
         body = ErrorBody (js ''Delete failed'') (js ''An error occurred while deleting the file'')\<rparr>
   \<and> entries (disk_after (delete_route sample_environment sample_dirname
         (sample_delete (js ''.'')) sample_disk)) (js ''/app/src/uploads'') = Some 4096"
proof -
  have a: "authenticate sample_environment (authorization (sample_delete (js ''.''))) = Next ()"
    by (simp add: sample_delete_def sample_authenticated)
  have v: "validateFilename (query_filename (sample_delete (js ''.''))) = Next (js ''.'')"
    by (simp add: sample_delete_def sample_filenames)
  have e: "entries sample_disk (js ''/app/src/uploads'') = Some 4096"
    "unlink_fault sample_disk (js ''/app/src/uploads'') = Some (js ''EISDIR'')"
    by (simp_all add: sample_disk_def)
  have h: "delete_handler sample_environment sample_dirname (js ''.'') sample_disk =
             (delete_failed (js ''EISDIR''), sample_disk)"
    by (rule delete_handler_fault) (simp_all add: sample_volumePath sample_targets e)
  show ?thesis
    by (simp add: a v e h delete_route_handled [OF a v] sample_volumePath sample_targets delete_failed_def)
qed

text \<open>
  C9. For an authenticated delete request whose filename is a string that trimming leaves
  non-empty, the handler always runs, whatever the filename contains, and its target is
  \<^verbatim>\<open>path.join\<close> of the storage root and the trimmed filename: the answer is 404
  when that path does not exist, and when it exists and the unlink is not refused it is
  removed and the answer is 200. A filename with a parent-directory component therefore
  reaches a path outside the storage root, as the witness shows for
  \<^verbatim>\<open>../index.js\<close>.
\<close>

theorem delete_target_is_plain_join:
  assumes "authenticate environment (authorization req) = Next ()"
    and "query_filename req = Some (QString s)"
    and "trim s \<noteq> []"
    and "root = path_join [dirname, js ''..'', volumePath environment]"
    and "target = path_join [root, trim s]"
    and "out = delete_route environment dirname req fs"
  shows "stages_run out = [AUTHENTICATE, VALIDATE_FILENAME, DELETE_HANDLER]
       \<and> (entries fs target = None \<longrightarrow>
            resp out = \<lparr>status = 404,
                         body = ErrorBody (js ''File not found'') (js ''The specified file does not exist'')\<rparr>
          \<and> disk_after out = fs)
       \<and> (entries fs target = Some n \<and> unlink_fault fs target = None \<longrightarrow>
            resp out = \<lparr>status = 200, body = DeleteBody (js ''File successfully deleted'') (trim s) n\<rparr>
          \<and> disk_after out = fs\<lparr>entries := (entries fs)(target := None)\<rparr>)"
proof -
  from assms(3) have "s \<noteq> []" by (auto simp: trim_def)
  with assms(2,3) have v: "validateFilename (query_filename req) = Next (trim s)"
    by (simp add: validateFilename_string)
  have t: "path_join [dirname, js ''..'', volumePath environment, trim s] = target"
    using assms(3) by (simp add: assms(4,5) storage_root_join)
  have out: "out = \<lparr>resp = fst (delete_handler environment dirname (trim s) fs),
            disk_after = snd (delete_handler environment dirname (trim s) fs),
            stages_run = [AUTHENTICATE, VALIDATE_FILENAME, DELETE_HANDLER]\<rparr>"
    unfolding assms(6) using assms(1) v by (rule delete_route_handled)
  have a: "entries fs target = None \<Longrightarrow> delete_handler environment dirname (trim s) fs =
    (\<lparr>status = 404,
      body = ErrorBody (js ''File not found'') (js ''The specified file does not exist'')\<rparr>, fs)"
    unfolding t [symmetric] by (rule delete_handler_absent)
  have c: "entries fs target = Some n \<Longrightarrow> unlink_fault fs target = None \<Longrightarrow>
    delete_handler environment dirname (trim s) fs =
      (\<lparr>status = 200, body = DeleteBody (js ''File successfully deleted'') (trim s) n\<rparr>,
       fs\<lparr>entries := (entries fs)(target := None)\<rparr>)"
    unfolding t [symmetric] by (rule delete_handler_removed)
  show ?thesis using a c by (auto simp: out)
qed

theorem delete_target_is_plain_join_witness:
  "authenticate sample_environment (authorization (sample_delete (js ''../index.js''))) = Next ()
   \<and> trim (js ''../index.js'') = js ''../index.js''
   \<and> path_join [sample_dirname, js ''..'', volumePath sample_environment] = js ''/app/src/uploads''
   \<and> path_join [js ''/app/src/uploads'', js ''../index.js''] = js ''/app/src/index.js''
   \<and> \<not> prefix (js ''/app/src/uploads/'') (js ''/app/src/index.js'')
   \<and> entries sample_disk (js ''/app/src/index.js'') = Some 77
   \<and> resp (delete_route sample_environment sample_dirname (sample_delete (js ''../index.js'')) sample_disk) =
        \<lparr>status = 200, body = DeleteBody (js ''File successfully deleted'') (js ''../index.js'') 77\<rparr>
   \<and> entries (disk_after (delete_route sample_environment sample_dirname
         (sample_delete (js ''../index.js'')) sample_disk)) (js ''/app/src/index.js'') = None"
proof -
  have a: "authenticate sample_environment (authorization (sample_delete (js ''../index.js''))) = Next ()"
    by (simp add: sample_delete_def sample_authenticated)
  have q: "query_filename (sample_delete (js ''../index.js'')) = Some (QString (js ''../index.js''))"
    by (simp add: sample_delete_def)
  have tr: "trim (js ''../index.js'') = js ''../index.js''" by code_simp
  have ne: "trim (js ''../index.js'') \<noteq> []" by (simp add: tr)
  have r: "path_join [sample_dirname, js ''..'', volumePath sample_environment] = js ''/app/src/uploads''"
    by (simp add: sample_volumePath sample_targets)
  have j: "path_join [js ''/app/src/uploads'', js ''../index.js''] = js ''/app/src/index.js''"
    by code_simp
  have o: "\<not> prefix (js ''/app/src/uploads/'') (js ''/app/src/index.js'')"
    by code_simp
  have e: "entries sample_disk (js ''/app/src/index.js'') = Some 77"
    "unlink_fault sample_disk (js ''/app/src/index.js'') = None"
    by (simp_all add: sample_disk_def)
  show ?thesis
    using delete_target_is_plain_join [OF a q ne refl refl refl, where n = 77 and fs = sample_disk]
    by (simp add: a tr r j o e)
qed

section \<open>The extension of a file name\<close>

lemma extname_loop_bounds:
  assumes "n \<le> length p"
    and "end_ix st \<noteq> -1 \<longrightarrow> int n < end_ix st \<and> end_ix st \<le> int (length p)"
    and "startDot st \<noteq> -1 \<longrightarrow> int n \<le> startDot st \<and> startDot st < end_ix st \<and> p ! nat (startDot st) = DOT"
  shows "(end_ix (extname_loop p n st) \<noteq> -1 \<longrightarrow>
            0 < end_ix (extname_loop p n st) \<and> end_ix (extname_loop p n st) \<le> int (length p))
       \<and> (startDot (extname_loop p n st) \<noteq> -1 \<longrightarrow>
            0 \<le> startDot (extname_loop p n st)
          \<and> startDot (extname_loop p n st) < end_ix (extname_loop p n st)
          \<and> p ! nat (startDot (extname_loop p n st)) = DOT)"
  using assms
proof (induction n arbitrary: st)
  case 0
  then show ?case by auto
next
  case (Suc i)
  show ?case
  proof (cases "p ! i = SLASH")
    case True
    show ?thesis
    proof (cases "matchedSlash st")
      case True
      with \<open>p ! i = SLASH\<close> have "extname_loop p (Suc i) st = extname_loop p i st" by simp
      moreover have "(end_ix (extname_loop p i st) \<noteq> -1 \<longrightarrow>
            0 < end_ix (extname_loop p i st) \<and> end_ix (extname_loop p i st) \<le> int (length p))
       \<and> (startDot (extname_loop p i st) \<noteq> -1 \<longrightarrow>
            0 \<le> startDot (extname_loop p i st)
          \<and> startDot (extname_loop p i st) < end_ix (extname_loop p i st)
          \<and> p ! nat (startDot (extname_loop p i st)) = DOT)"
        using Suc.prems by (intro Suc.IH) auto
      ultimately show ?thesis by simp
    next
      case False
      with \<open>p ! i = SLASH\<close> have "extname_loop p (Suc i) st = st\<lparr>startPart := int i + 1\<rparr>" by simp
      with Suc.prems show ?thesis by auto
    qed
  next
    case False
    define st1 where "st1 = (if end_ix st = -1 then st\<lparr>matchedSlash := False, end_ix := int i + 1\<rparr> else st)"
    define st2 where "st2 = (if p ! i = DOT then
                     (if startDot st1 = -1 then st1\<lparr>startDot := int i\<rparr>
                      else if preDotState st1 \<noteq> 1 then st1\<lparr>preDotState := 1\<rparr> else st1)
                   else if startDot st1 \<noteq> -1 then st1\<lparr>preDotState := -1\<rparr>
                   else st1)"
    have step: "extname_loop p (Suc i) st = extname_loop p i st2"
      using False by (simp add: st1_def st2_def Let_def)
    have e1: "end_ix st1 \<noteq> -1 \<and> int i < end_ix st1 \<and> end_ix st1 \<le> int (length p)"
      using Suc.prems by (auto simp: st1_def)
    have s1: "startDot st1 = startDot st" by (simp add: st1_def)
    have e2: "end_ix st2 = end_ix st1" by (simp add: st2_def)
    have s2: "startDot st2 \<noteq> -1 \<longrightarrow> int i \<le> startDot st2 \<and> startDot st2 < end_ix st2
                \<and> p ! nat (startDot st2) = DOT"
      using Suc.prems(3) e1 by (auto simp: st2_def s1 e2 st1_def)
    have "(end_ix (extname_loop p i st2) \<noteq> -1 \<longrightarrow>
            0 < end_ix (extname_loop p i st2) \<and> end_ix (extname_loop p i st2) \<le> int (length p))
       \<and> (startDot (extname_loop p i st2) \<noteq> -1 \<longrightarrow>
            0 \<le> startDot (extname_loop p i st2)
          \<and> startDot (extname_loop p i st2) < end_ix (extname_loop p i st2)
          \<and> p ! nat (startDot (extname_loop p i st2)) = DOT)"
      using Suc.prems(1) e1 e2 s2 by (intro Suc.IH) auto
    with step show ?thesis by simp
  qed
qed

lemma extname_slice:
  obtains "extname p = []"
  | sd e where "sd < e" "e \<le> length p" "p ! sd = DOT" "extname p = take (e - sd) (drop sd p)"
proof -
  let ?st = "extname_loop p (length p) ext_init"
  have b: "(end_ix ?st \<noteq> -1 \<longrightarrow> 0 < end_ix ?st \<and> end_ix ?st \<le> int (length p))
       \<and> (startDot ?st \<noteq> -1 \<longrightarrow> 0 \<le> startDot ?st \<and> startDot ?st < end_ix ?st
            \<and> p ! nat (startDot ?st) = DOT)"
    by (rule extname_loop_bounds) (simp_all add: ext_init_def)
  show thesis
  proof (cases "extname p = []")
    case True
    then show ?thesis by (rule that(1))
  next
    case False
    then have sd: "startDot ?st \<noteq> -1" and e: "end_ix ?st \<noteq> -1"
      and ex: "extname p = take (nat (end_ix ?st - startDot ?st)) (drop (nat (startDot ?st)) p)"
      by (auto simp: extname_def Let_def split: if_splits)
    show ?thesis
    proof (rule that(2) [of "nat (startDot ?st)" "nat (end_ix ?st)"])
      show "nat (startDot ?st) < nat (end_ix ?st)" using b sd e by auto
      show "nat (end_ix ?st) \<le> length p" using b e by auto
      show "p ! nat (startDot ?st) = DOT" using b sd by auto
      show "extname p = take (nat (end_ix ?st) - nat (startDot ?st)) (drop (nat (startDot ?st)) p)"
        using b sd e ex by (simp add: nat_diff_distrib)
    qed
  qed
qed

lemma extname_leading_dot: "extname p = [] \<or> hd (extname p) = DOT"
proof (rule extname_slice [of p])
  assume "extname p = []"
  then show ?thesis by simp
next
  fix sd e
  assume "sd < e" "e \<le> length p" "p ! sd = DOT" "extname p = take (e - sd) (drop sd p)"
  then show ?thesis by (simp add: hd_drop_conv_nth)
qed

lemma extname_sublist: "sublist (extname p) p"
proof (rule extname_slice [of p])
  assume "extname p = []"
  then show ?thesis by simp
next
  fix sd e
  assume h: "sd < e" "e \<le> length p" "p ! sd = DOT" "extname p = take (e - sd) (drop sd p)"
  have "take (e - sd) (drop sd p) @ drop (e - sd) (drop sd p) = drop sd p"
    by (rule append_take_drop_id)
  then have "p = take sd p @ take (e - sd) (drop sd p) @ drop (e - sd) (drop sd p)"
    by (simp only: append_take_drop_id)
  with h(4) show ?thesis unfolding sublist_def by metis
qed

lemma extname_loop_end:
  assumes "SLASH \<notin> set p" and "n \<le> length p"
    and "if end_ix st = -1 then n = length p else end_ix st = int (length p)"
  shows "end_ix (extname_loop p n st) \<noteq> -1 \<longrightarrow> end_ix (extname_loop p n st) = int (length p)"
  using assms(2,3)
proof (induction n arbitrary: st)
  case 0
  then show ?case by (auto split: if_splits)
next
  case (Suc i)
  from assms(1) Suc.prems(1) have ns: "p ! i \<noteq> SLASH" by (metis Suc_le_lessD nth_mem)
  define st1 where "st1 = (if end_ix st = -1 then st\<lparr>matchedSlash := False, end_ix := int i + 1\<rparr> else st)"
  define st2 where "st2 = (if p ! i = DOT then
                     (if startDot st1 = -1 then st1\<lparr>startDot := int i\<rparr>
                      else if preDotState st1 \<noteq> 1 then st1\<lparr>preDotState := 1\<rparr> else st1)
                   else if startDot st1 \<noteq> -1 then st1\<lparr>preDotState := -1\<rparr>
                   else st1)"
  have step: "extname_loop p (Suc i) st = extname_loop p i st2"
    using ns by (simp add: st1_def st2_def Let_def)
  have "end_ix st2 = int (length p)"
    using Suc.prems(2) by (auto simp: st2_def st1_def split: if_splits)
  then have "if end_ix st2 = -1 then i = length p else end_ix st2 = int (length p)" by simp
  with Suc.prems(1) have "end_ix (extname_loop p i st2) \<noteq> -1 \<longrightarrow>
      end_ix (extname_loop p i st2) = int (length p)"
    by (intro Suc.IH) auto
  with step show ?case by simp
qed

lemma extname_suffix:
  assumes "SLASH \<notin> set p"
  shows "suffix (extname p) p"
proof (cases "extname p = []")
  case True
  then show ?thesis by simp
next
  case False
  let ?st = "extname_loop p (length p) ext_init"
  from False have sd: "startDot ?st \<noteq> -1" and e: "end_ix ?st \<noteq> -1"
    and ex: "extname p = take (nat (end_ix ?st - startDot ?st)) (drop (nat (startDot ?st)) p)"
    by (auto simp: extname_def Let_def split: if_splits)
  have "end_ix ?st = int (length p)"
    using extname_loop_end [OF assms, of "length p" ext_init] e by (simp add: ext_init_def)
  with ex have "extname p = drop (nat (startDot ?st)) p" by simp
  then show ?thesis by (metis suffix_drop)
qed

section \<open>The multipart layer and the upload route\<close>


lemma errorHandler_plain:
  "errorHandler (plain_Error m) =
     \<lparr>status = 500,
      body = ErrorBody (js ''Internal server error'') (js ''An unexpected error occurred'')\<rparr>"
  by (simp add: errorHandler_def plain_Error_def)

lemma errorHandler_not_200: "status (errorHandler err) \<noteq> 200"
  by (simp add: errorHandler_def)

lemma fileFilter_cases:
  "fileFilter file =
     (if mimetype file \<in> set allowedMimeTypes then None
      else Some (plain_Error (js ''Unsupported file type'')))"
  by (simp add: fileFilter_def)



lemma size_limit_not_hit: "\<not> size_limit_hit inclusive n limit \<Longrightarrow> n \<le> limit"
  by (simp add: size_limit_hit_def split: if_splits)

lemma upload_single_parts:
  assumes "multipart req" and "file_parts req = part # parts"
  shows "upload_single environment dirname uuids inclusive (js ''file'') req fs =
     (if originalname part = [] then
        (if parts = [] then (Inr None, fs)
         else (Inl (MulterError (js ''LIMIT_FILE_COUNT'') (js ''Too many files'')), fs))
      else if fieldname part \<noteq> js ''file'' then
        (Inl (MulterError (js ''LIMIT_UNEXPECTED_FILE'') (js ''Unexpected field'')), fs)
      else if mimetype part \<notin> set allowedMimeTypes then
        (Inl (plain_Error (js ''Unsupported file type'')), fs)
      else
        (case handleFile environment dirname (uuids 0) part fs of
           (Inl err, fs1) \<Rightarrow> (Inl err, fs1)
         | (Inr file, fs1) \<Rightarrow>
             if size_limit_hit inclusive (bytes part) (fileSize upload_limits) then
               (Inl (MulterError (js ''LIMIT_FILE_SIZE'') (js ''File too large'')),
                removeUploadedFiles [file] fs1)
             else if parts = [] then (Inr (Some file), fs1)
             else (Inl (MulterError (js ''LIMIT_FILE_COUNT'') (js ''Too many files'')),
                   removeUploadedFiles [file] fs1)))"
proof (cases parts)
  case Nil
  with assms show ?thesis
    by (simp add: upload_single_def fileFilter_cases abortWithError_def removeUploadedFiles_def
          upload_limits_def Let_def split: prod.splits sum.splits)
next
  case (Cons q qs)
  with assms show ?thesis
    by (simp add: upload_single_def fileFilter_cases abortWithError_def removeUploadedFiles_def
          upload_limits_def Let_def split: prod.splits sum.splits)
qed


lemma handleFile_stored:
  assumes "handleFile environment dirname uuid part fs = (Inr file, fs1)"
  shows "filename file = uuid @ extname (originalname part)"
    and "originalname file = originalname part"
    and "mimetype file = mimetype part"
    and "fsize file = min (bytes part) (fileSize upload_limits)"
    and "path file = path_join [path_join [dirname, js ''..'', volumePath environment], filename file]"
    and "entries fs1 (path file) = Some (fsize file)"
  using assms
  by (auto simp: handleFile_def storage_destination_def storage_filename_def writeFile_def
        mkdirSync_def Let_def split: option.splits sum.splits prod.splits if_splits)

lemma upload_route_error:
  assumes "authenticate environment (authorization req) = Next ()"
    and "upload_single environment dirname uuids inclusive (js ''file'') req fs = (Inl err, fs1)"
  shows "upload_route environment dirname uuids inclusive req fs =
           \<lparr>resp = errorHandler err, disk_after = fs1,
            stages_run = [AUTHENTICATE, UPLOAD_SINGLE, ERROR_HANDLER]\<rparr>"
  using assms by (simp add: upload_route_def)

lemma upload_route_no_file:
  assumes "authenticate environment (authorization req) = Next ()"
    and "upload_single environment dirname uuids inclusive (js ''file'') req fs = (Inr None, fs1)"
  shows "upload_route environment dirname uuids inclusive req fs =
           \<lparr>resp = \<lparr>status = 400,
                     body = ErrorBody (js ''No file uploaded'') (js ''Please select a file to upload'')\<rparr>,
            disk_after = fs1,
            stages_run = [AUTHENTICATE, UPLOAD_SINGLE, VALIDATE_FILE_UPLOAD]\<rparr>"
  using assms by (simp add: upload_route_def validateFileUpload_def)

lemma upload_route_stored:
  assumes "authenticate environment (authorization req) = Next ()"
    and "upload_single environment dirname uuids inclusive (js ''file'') req fs = (Inr (Some file), fs1)"
    and "mimetype file \<in> set allowedMimeTypes"
  shows "upload_route environment dirname uuids inclusive req fs =
           \<lparr>resp = upload_handler environment file, disk_after = fs1,
            stages_run = [AUTHENTICATE, UPLOAD_SINGLE, VALIDATE_FILE_UPLOAD, UPLOAD_HANDLER]\<rparr>"
  using assms by (simp add: upload_route_def validateFileUpload_def)

lemma upload_single_Some:
  assumes "upload_single environment dirname uuids inclusive (js ''file'') req fs = (Inr (Some file), fs1)"
  obtains part where "file_parts req = [part]" "mimetype part \<in> set allowedMimeTypes"
    "bytes part \<le> fileSize upload_limits"
    "handleFile environment dirname (uuids 0) part fs = (Inr file, fs1)"
proof -
  have m: "multipart req"
    using assms by (auto simp: upload_single_def split: if_splits)
  show thesis
  proof (cases "file_parts req")
    case Nil
    with m assms show ?thesis by (simp add: upload_single_def)
  next
    case (Cons part parts)
    note u = upload_single_parts [OF m Cons, of environment dirname uuids inclusive fs]
    from assms have "parts = [] \<and> mimetype part \<in> set allowedMimeTypes
        \<and> \<not> size_limit_hit inclusive (bytes part) (fileSize upload_limits)
        \<and> handleFile environment dirname (uuids 0) part fs = (Inr file, fs1)"
      unfolding u by (auto split: if_splits prod.splits sum.splits)
    then have "parts = [] \<and> mimetype part \<in> set allowedMimeTypes
        \<and> bytes part \<le> fileSize upload_limits
        \<and> handleFile environment dirname (uuids 0) part fs = (Inr file, fs1)"
      by (auto dest: size_limit_not_hit)
    with Cons show ?thesis by (intro that [of part]) auto
  qed
qed

lemma unsupported_type_route:
  assumes "authenticate environment (authorization req) = Next ()"
    and "multipart req" and "file_parts req = part # parts"
    and "originalname part \<noteq> []" and "fieldname part = js ''file''"
    and "mimetype part \<notin> set allowedMimeTypes"
  shows "upload_route environment dirname uuids inclusive req fs =
           \<lparr>resp = \<lparr>status = 500,
                     body = ErrorBody (js ''Internal server error'') (js ''An unexpected error occurred'')\<rparr>,
            disk_after = fs,
            stages_run = [AUTHENTICATE, UPLOAD_SINGLE, ERROR_HANDLER]\<rparr>"
proof -
  have "upload_single environment dirname uuids inclusive (js ''file'') req fs =
          (Inl (plain_Error (js ''Unsupported file type'')), fs)"
    using assms(4-6) by (simp add: upload_single_parts [OF assms(2,3)])
  with assms(1) show ?thesis by (simp add: upload_route_error errorHandler_plain)
qed

text \<open>
  C6. When an upload is answered 200, the body held exactly one file part; the stored name
  is the identifier \<^verbatim>\<open>uuidv4()\<close> returned for the request followed by
  \<^verbatim>\<open>path.extname\<close> of the part's original name; that extension is empty or starts
  with a dot and is a contiguous piece of the original name, unchanged (its end, when the
  name holds no separator); the response
  carries \<open>filePath\<close> equal to the base URL, \<^verbatim>\<open>/files/\<close> and the stored name; and the
  volume holds the part's bytes under the storage root at the stored name. The identifier
  is an input of the model: that it is random and fresh is not stated here.
\<close>

theorem upload_success_names:
  assumes "status (resp (upload_route environment dirname uuids inclusive req fs)) = 200"
  shows "\<exists>part. file_parts req = [part]
       \<and> resp (upload_route environment dirname uuids inclusive req fs) =
           \<lparr>status = 200,
            body = UploadBody (baseUrl environment @ js ''/files/'' @ (uuids 0 @ extname (originalname part)))
                     (uuids 0 @ extname (originalname part)) (originalname part) (bytes part)
                     (mimetype part)\<rparr>
       \<and> entries (disk_after (upload_route environment dirname uuids inclusive req fs))
            (path_join [path_join [dirname, js ''..'', volumePath environment],
                        uuids 0 @ extname (originalname part)]) = Some (bytes part)
       \<and> (extname (originalname part) = [] \<or> hd (extname (originalname part)) = DOT)
       \<and> sublist (extname (originalname part)) (originalname part)
       \<and> (SLASH \<notin> set (originalname part) \<longrightarrow>
            suffix (extname (originalname part)) (originalname part))"
proof -
  let ?out = "upload_route environment dirname uuids inclusive req fs"
  have auth: "authenticate environment (authorization req) = Next ()"
  proof (rule authenticate_cases [of environment "authorization req"])
    fix r assume r: "authenticate environment (authorization req) = Respond r"
    then have "status (resp ?out) = 401"
      by (simp add: upload_route_rejected authenticate_status [OF r])
    with assms show ?thesis by simp
  qed
  obtain res fs1 where us: "upload_single environment dirname uuids inclusive (js ''file'') req fs = (res, fs1)"
    by (cases "upload_single environment dirname uuids inclusive (js ''file'') req fs")
  obtain stored where res: "res = Inr (Some stored)"
  proof (cases res)
    case (Inl err)
    with auth us have "status (resp ?out) = status (errorHandler err)"
      by (simp add: upload_route_error)
    with assms show ?thesis by (simp add: errorHandler_not_200)
  next
    case (Inr fo)
    show ?thesis
    proof (cases fo)
      case None
      with Inr auth us have "status (resp ?out) = 400"
        by (simp add: upload_route_no_file)
      with assms show ?thesis by simp
    next
      case (Some g)
      with Inr show ?thesis by (intro that [of g]) simp
    qed
  qed
  from us res obtain part where part: "file_parts req = [part]"
      "mimetype part \<in> set allowedMimeTypes" "bytes part \<le> fileSize upload_limits"
      "handleFile environment dirname (uuids 0) part fs = (Inr stored, fs1)"
    by (auto elim: upload_single_Some)
  note f = handleFile_stored [OF part(4)]
  have sz: "fsize stored = bytes part" using f(4) part(3) by simp
  have out: "?out = \<lparr>resp = upload_handler environment stored, disk_after = fs1,
            stages_run = [AUTHENTICATE, UPLOAD_SINGLE, VALIDATE_FILE_UPLOAD, UPLOAD_HANDLER]\<rparr>"
    using auth us res part(2) f(3) by (simp add: upload_route_stored)
  have "resp ?out = \<lparr>status = 200,
            body = UploadBody (baseUrl environment @ js ''/files/'' @ (uuids 0 @ extname (originalname part)))
                     (uuids 0 @ extname (originalname part)) (originalname part) (bytes part)
                     (mimetype part)\<rparr>"
    by (simp add: out upload_handler_def f(1,2,3) sz)
  moreover have "entries (disk_after ?out)
            (path_join [path_join [dirname, js ''..'', volumePath environment],
                        uuids 0 @ extname (originalname part)]) = Some (bytes part)"
    using f(5,6) by (simp add: out f(1) sz)
  ultimately show ?thesis
    using part(1) extname_leading_dot [of "originalname part"] extname_sublist [of "originalname part"]
      extname_suffix [of "originalname part"]
    by blast
qed


lemma sample_upload_authenticated:
  "authenticate sample_environment (authorization (sample_upload parts)) = Next ()"
  by (simp add: sample_upload_def authenticate_Next_iff sample_environment_def load_environment_def
        template_def js_append)

lemma sample_baseUrl: "baseUrl sample_environment = js ''http://localhost:3000''"
  by (simp add: sample_environment_def load_environment_def or_default_def falsy_def)

lemma handleFile_succeeds:
  assumes "mkdir_fault fs (path_join [dirname, js ''..'', volumePath environment]) = None"
    and "write_fault fs (path_join [path_join [dirname, js ''..'', volumePath environment],
           uuid @ extname (originalname part)]) = None"
  obtains stored fs1 where "handleFile environment dirname uuid part fs = (Inr stored, fs1)"
proof -
  let ?root = "path_join [dirname, js ''..'', volumePath environment]"
  let ?target = "path_join [?root, uuid @ extname (originalname part)]"
  define fs0 where "fs0 = (if entries fs ?root = None
                           then fs\<lparr>entries := (entries fs)(?root \<mapsto> dir_size fs)\<rparr> else fs)"
  have mk: "mkdirSync fs ?root = Inr fs0"
    using assms(1) by (simp add: mkdirSync_def fs0_def)
  have "write_fault fs0 ?target = None"
    using assms(2) by (simp add: fs0_def)
  then have wr: "writeFile fs0 ?target n = Inr (fs0\<lparr>entries := (entries fs0)(?target \<mapsto> n)\<rparr>)" for n
    by (simp add: writeFile_def)
  have "\<exists>stored fs1. handleFile environment dirname uuid part fs = (Inr stored, fs1)"
    by (simp add: handleFile_def storage_destination_def storage_filename_def Let_def mk wr)
  then show thesis using that by blast
qed

lemma sample_handleFile:
  obtains stored fs1 where "handleFile sample_environment sample_dirname uuid part sample_disk = (Inr stored, fs1)"
  by (rule handleFile_succeeds [of sample_disk sample_dirname sample_environment uuid part])
     (simp_all add: sample_disk_def)

theorem upload_success_names_witness:
  "status (resp (upload_route sample_environment sample_dirname (\<lambda>k. js ''123e4567'') True
      (sample_upload [\<lparr>fieldname = js ''file'', originalname = js ''photo.PNG'',
                        mimetype = js ''image/png'', bytes = 1234\<rparr>]) sample_disk)) = 200
   \<and> resp (upload_route sample_environment sample_dirname (\<lambda>k. js ''123e4567'') True
      (sample_upload [\<lparr>fieldname = js ''file'', originalname = js ''photo.PNG'',
                        mimetype = js ''image/png'', bytes = 1234\<rparr>]) sample_disk) =
       \<lparr>status = 200,
        body = UploadBody (js ''http://localhost:3000/files/123e4567.PNG'') (js ''123e4567.PNG'')
                 (js ''photo.PNG'') 1234 (js ''image/png'')\<rparr>"
proof -
  let ?part = "\<lparr>fieldname = js ''file'', originalname = js ''photo.PNG'',
                  mimetype = js ''image/png'', bytes = 1234\<rparr>"
  let ?out = "upload_route sample_environment sample_dirname (\<lambda>k. js ''123e4567'') True
                (sample_upload [?part]) sample_disk"
  obtain stored fs1 where h: "handleFile sample_environment sample_dirname (js ''123e4567'') ?part sample_disk
      = (Inr stored, fs1)"
    by (rule sample_handleFile)
  have m: "mimetype stored \<in> set allowedMimeTypes"
    using handleFile_stored(3) [OF h] by (simp add: allowedMimeTypes_def)
  have "upload_single sample_environment sample_dirname (\<lambda>k. js ''123e4567'') True (js ''file'')
          (sample_upload [?part]) sample_disk = (Inr (Some stored), fs1)"
    using h by (simp add: upload_single_parts [of _ ?part "[]"] sample_upload_def
        allowedMimeTypes_def upload_limits_def size_limit_hit_def)
  then have "?out = \<lparr>resp = upload_handler sample_environment stored, disk_after = fs1,
            stages_run = [AUTHENTICATE, UPLOAD_SINGLE, VALIDATE_FILE_UPLOAD, UPLOAD_HANDLER]\<rparr>"
    using m by (simp add: upload_route_stored sample_upload_authenticated)
  then have ok: "status (resp ?out) = 200" by (simp add: upload_handler_def)
  have ext: "extname (js ''photo.PNG'') = js ''.PNG''" by code_simp
  from upload_success_names [OF ok] show ?thesis
    by (auto simp: ok sample_upload_def ext sample_baseUrl js_append)
qed

text \<open>
  C2. An authenticated upload of \<^verbatim>\<open>setup.exe\<close> with the declared type
  \<^verbatim>\<open>application/x-msdownload\<close>, which is not in the allow-list: \<^verbatim>\<open>fileFilter\<close>
  refuses the part with a plain \<^verbatim>\<open>Error\<close>, for which \<^verbatim>\<open>errorHandler\<close> has no
  case, so the answer is 500 "Internal server error" and not 400 "Unsupported file type";
  \<^verbatim>\<open>validateFileUpload\<close>, which holds the 400 answer, does not run. Nothing is written.
\<close>

theorem unsupported_type_answered_500:
  "js ''application/x-msdownload'' \<notin> set allowedMimeTypes
   \<and> resp (upload_route sample_environment sample_dirname (\<lambda>k. js ''123e4567'') True
        (sample_upload [\<lparr>fieldname = js ''file'', originalname = js ''setup.exe'',
                          mimetype = js ''application/x-msdownload'', bytes = 1234\<rparr>]) sample_disk) =
       \<lparr>status = 500,
        body = ErrorBody (js ''Internal server error'') (js ''An unexpected error occurred'')\<rparr>
   \<and> disk_after (upload_route sample_environment sample_dirname (\<lambda>k. js ''123e4567'') True
        (sample_upload [\<lparr>fieldname = js ''file'', originalname = js ''setup.exe'',
                          mimetype = js ''application/x-msdownload'', bytes = 1234\<rparr>]) sample_disk) =
       sample_disk
   \<and> stages_run (upload_route sample_environment sample_dirname (\<lambda>k. js ''123e4567'') True
        (sample_upload [\<lparr>fieldname = js ''file'', originalname = js ''setup.exe'',
                          mimetype = js ''application/x-msdownload'', bytes = 1234\<rparr>]) sample_disk) =
       [AUTHENTICATE, UPLOAD_SINGLE, ERROR_HANDLER]"
proof -
  have n: "js ''application/x-msdownload'' \<notin> set allowedMimeTypes"
    by (simp add: allowedMimeTypes_def)
  have "upload_route sample_environment sample_dirname (\<lambda>k. js ''123e4567'') True
        (sample_upload [\<lparr>fieldname = js ''file'', originalname = js ''setup.exe'',
                          mimetype = js ''application/x-msdownload'', bytes = 1234\<rparr>]) sample_disk =
       \<lparr>resp = \<lparr>status = 500,
                 body = ErrorBody (js ''Internal server error'') (js ''An unexpected error occurred'')\<rparr>,
        disk_after = sample_disk,
        stages_run = [AUTHENTICATE, UPLOAD_SINGLE, ERROR_HANDLER]\<rparr>"
    by (rule unsupported_type_route [OF sample_upload_authenticated, where parts = "[]"
          and part = "\<lparr>fieldname = js ''file'', originalname = js ''setup.exe'',
                       mimetype = js ''application/x-msdownload'', bytes = 1234\<rparr>"])
       (simp_all add: sample_upload_def n)
  with n show ?thesis by simp
qed



end
